theory Spec2Isabelle
  imports Main "HOL-Library.Word"
begin

section \<open>The AWS EBS CSI driver operator: deployment hooks, resource gate, config mirror\<close>

text \<open>
  A shallow embedding of \<^verbatim>\<open>pkg/operator/starter.go\<close>. A deployment hook of the source
  has the Go type \<^verbatim>\<open>func(*opv1.OperatorSpec, *appsv1.Deployment) error\<close>: it mutates
  the deployment it is handed and returns an error or nil. Here a hook is a function
  from the deployment to the pair of the deployment as the hook leaves it and the
  returned error (\<open>None\<close> for nil), so that a mutation made before an error return
  stays visible. No hook of this file reads its \<^verbatim>\<open>OperatorSpec\<close> argument, which is
  therefore left out.
\<close>

subsection \<open>Constants of the source\<close>

definition cloudConfigNamespace :: string where
  "cloudConfigNamespace = ''openshift-config-managed''"

definition cloudConfigName :: string where
  "cloudConfigName = ''kube-cloud-config''"

definition caBundleKey :: string where
  "caBundleKey = ''ca-bundle.pem''"

definition infrastructureName :: string where
  "infrastructureName = ''cluster''"

definition hypershiftPriorityClass :: string where
  "hypershiftPriorityClass = ''hypershift-control-plane''"

text \<open>
  Constants of \<^verbatim>\<open>k8s.io/api/core/v1\<close> that the source names: the types are
  Go string types, the values are the strings the API declares.
\<close>

definition StorageMediumMemory :: string where
  "StorageMediumMemory = ''Memory''"

definition PullIfNotPresent :: string where
  "PullIfNotPresent = ''IfNotPresent''"

definition ResourceCPU :: string where
  "ResourceCPU = ''cpu''"

definition ResourceMemory :: string where
  "ResourceMemory = ''memory''"

subsection \<open>Errors\<close>

text \<open>
  \<open>StatusNotFound\<close> and \<open>StatusError\<close> are what a lister or an API client returns;
  \<open>Errorf\<close> is \<^verbatim>\<open>fmt.Errorf\<close> with a plain message and \<open>ErrorfW\<close> is
  \<^verbatim>\<open>fmt.Errorf("...: %w", err)\<close>, which wraps \<open>err\<close>.
\<close>

datatype error =
    StatusNotFound
  | StatusError string
  | Errorf string
  | ErrorfW string error

text \<open>
  \<^verbatim>\<open>apierrors.IsNotFound\<close>: the reason of the status error, looked for through the
  wrapping.
\<close>

fun IsNotFound :: "error \<Rightarrow> bool" where
  "IsNotFound StatusNotFound = True"
| "IsNotFound (StatusError m) = False"
| "IsNotFound (Errorf m) = False"
| "IsNotFound (ErrorfW m e) = IsNotFound e"

subsection \<open>The workload specification\<close>

record EnvVar =
  ev_Name :: string
  ev_Value :: string

record VolumeMount =
  vm_Name :: string
  vm_MountPath :: string
  vm_ReadOnly :: bool

text \<open>
  \<^verbatim>\<open>corev1.VolumeSource\<close> is a struct of pointers, one per kind of volume, nil when
  the volume is not of that kind. The three kinds the source builds are kept apart
  (a secret by its \<^verbatim>\<open>SecretName\<close>, a config map by the name of its
  \<^verbatim>\<open>LocalObjectReference\<close>, an empty directory by its \<^verbatim>\<open>Medium\<close>);
  \<open>vs_Other\<close> stands for the remaining pointers, as a base template may set them.
\<close>

record VolumeSource =
  vs_Secret :: "string option"
  vs_ConfigMap :: "string option"
  vs_EmptyDir :: "string option"
  vs_Other :: "string option"

record Volume =
  v_Name :: string
  v_VolumeSource :: VolumeSource

record Container =
  c_Name :: string
  c_Image :: string
  c_ImagePullPolicy :: string
  c_Command :: "string list"
  c_Args :: "string list"
  c_Env :: "EnvVar list"
  c_Resources_Requests :: "string \<rightharpoonup> string"
  c_VolumeMounts :: "VolumeMount list"

record PodSpec =
  Volumes :: "Volume list"
  Containers :: "Container list"
  PriorityClassName :: string

text \<open>
  \<open>Replicas\<close> is \<^verbatim>\<open>deployment.Spec.Replicas\<close>, a \<^verbatim>\<open>*int32\<close> (a 32-bit word, read as signed);
  \<open>Spec\<close> is \<^verbatim>\<open>deployment.Spec.Template.Spec\<close>.
\<close>

record Deployment =
  Namespace :: string
  Replicas :: "32 word option"
  Spec :: PodSpec

type_synonym DeploymentHookFunc = "Deployment \<Rightarrow> Deployment \<times> error option"

subsection \<open>The cluster state the hooks read\<close>

record ConfigMap =
  Data :: "string \<rightharpoonup> string"

record AWSServiceEndpoint =
  se_Name :: string
  se_URL :: string

record AWSResourceTag =
  rt_Key :: string
  rt_Value :: string

record AWSPlatformStatus =
  Region :: string
  ServiceEndpoints :: "AWSServiceEndpoint list"
  ResourceTags :: "AWSResourceTag list"

text \<open>
  \<^verbatim>\<open>infra.Status.PlatformStatus\<close> and its field \<^verbatim>\<open>AWS\<close> are pointers:
  \<open>PlatformStatus\<close> is \<open>None\<close> for a nil platform status, \<open>Some None\<close> for a
  platform status whose \<^verbatim>\<open>AWS\<close> is nil.
\<close>

record Infrastructure =
  PlatformStatus :: "AWSPlatformStatus option option"

text \<open>A lister's \<^verbatim>\<open>Get(name)\<close> returns the cached object or an error.\<close>

type_synonym ConfigMapNamespaceLister = "string \<Rightarrow> error + ConfigMap"

type_synonym InfrastructureLister = "string \<Rightarrow> error + Infrastructure"

subsection \<open>The conditional resource gate\<close>

text \<open>
  The two closures handed to \<^verbatim>\<open>WithConditionalStaticResourcesController\<close> for
  \<^verbatim>\<open>volumesnapshotclass.yaml\<close>. The first asks the API extensions client of the
  guest cluster for a custom resource definition; \<open>crdGet\<close> is that client's
  \<^verbatim>\<open>Get\<close>. The second consults nothing.
\<close>

definition installPredicate :: "(string \<Rightarrow> error + 'crd) \<Rightarrow> bool" where
  "installPredicate crdGet =
     (let name = ''volumesnapshotclasses.snapshot.storage.k8s.io''
      in case crdGet name of Inl err \<Rightarrow> False | Inr crd \<Rightarrow> True)"

definition deletePredicate :: "(string \<Rightarrow> error + 'crd) \<Rightarrow> bool" where
  "deletePredicate crdGet = False"

datatype decision = Install | Remove | NoOp

text \<open>
  Modelled from the spec: the evaluation of a gate by the conditional static resources
  controller, which is library code outside \<^verbatim>\<open>starter.go\<close>. The spec gives the
  contract \<^verbatim>\<open>evaluate() -> {Install, Remove, NoOp}\<close> of a predicate pair, with
  "Precedence when both hold: Remove > Install".
\<close>

definition evaluate :: "bool \<Rightarrow> bool \<Rightarrow> decision" where
  "evaluate install delete =
     (if delete then Remove else if install then Install else NoOp)"

definition volumeSnapshotClassGate :: "(string \<Rightarrow> error + 'crd) \<Rightarrow> decision" where
  "volumeSnapshotClassGate crdGet =
     evaluate (installPredicate crdGet) (deletePredicate crdGet)"

subsection \<open>Loops over the containers of a pod\<close>

text \<open>
  Two shapes of loop occur. Both scan \<^verbatim>\<open>deployment.Spec.Template.Spec.Containers\<close>
  by index and skip (\<^verbatim>\<open>continue\<close>) every container whose name is not the wanted
  one. \<open>mutateFirst\<close> is the loop whose body ends in \<^verbatim>\<open>return nil\<close>: it changes
  the first container of that name and stops, and it is \<open>None\<close> when the loop runs to
  its end without a match. \<open>mutateEach\<close> is the loop with no return in its body: it
  changes every container of that name.
\<close>

fun mutateFirst :: "string \<Rightarrow> (Container \<Rightarrow> Container) \<Rightarrow> Container list \<Rightarrow> Container list option" where
  "mutateFirst n f [] = None"
| "mutateFirst n f (c # cs) =
     (if c_Name c \<noteq> n then map_option ((#) c) (mutateFirst n f cs)
      else Some (f c # cs))"

definition mutateEach :: "string \<Rightarrow> (Container \<Rightarrow> Container) \<Rightarrow> Container list \<Rightarrow> Container list" where
  "mutateEach n f cs = map (\<lambda>c. if c_Name c \<noteq> n then c else f c) cs"

definition setContainers :: "Container list \<Rightarrow> Deployment \<Rightarrow> Deployment" where
  "setContainers cs deployment = deployment\<lparr>Spec := (Spec deployment)\<lparr>Containers := cs\<rparr>\<rparr>"

definition setVolumes :: "Volume list \<Rightarrow> Deployment \<Rightarrow> Deployment" where
  "setVolumes vs deployment = deployment\<lparr>Spec := (Spec deployment)\<lparr>Volumes := vs\<rparr>\<rparr>"

subsection \<open>The custom CA bundle hook\<close>

definition customAWSCABundle :: "bool \<Rightarrow> ConfigMapNamespaceLister \<Rightarrow> string \<times> error option" where
  "customAWSCABundle isHypershift cloudConfigLister =
     (let configName = (if isHypershift then ''user-ca-bundle'' else cloudConfigName)
      in (case cloudConfigLister configName of
            Inl err \<Rightarrow>
              (if IsNotFound err then ('''', None)
               else ('''', Some (ErrorfW (''failed to get the '' @ configName @ '' ConfigMap'') err)))
          | Inr cloudConfigCM \<Rightarrow>
              (case Data cloudConfigCM caBundleKey of
                 None \<Rightarrow> ('''', None)
               | Some bundle \<Rightarrow> (configName, None))))"

definition caBundleVolume :: "string \<Rightarrow> Volume" where
  "caBundleVolume configName =
     \<lparr>v_Name = ''ca-bundle'',
      v_VolumeSource = \<lparr>vs_Secret = None, vs_ConfigMap = Some configName,
                        vs_EmptyDir = None, vs_Other = None\<rparr>\<rparr>"

definition addCABundle :: "Container \<Rightarrow> Container" where
  "addCABundle container =
     container\<lparr>c_Env := c_Env container @
                  [\<lparr>ev_Name = ''AWS_CA_BUNDLE'', ev_Value = ''/etc/ca/ca-bundle.pem''\<rparr>],
               c_VolumeMounts := c_VolumeMounts container @
                  [\<lparr>vm_Name = ''ca-bundle'', vm_MountPath = ''/etc/ca'', vm_ReadOnly = True\<rparr>]\<rparr>"

definition withCustomAWSCABundle :: "bool \<Rightarrow> ConfigMapNamespaceLister \<Rightarrow> DeploymentHookFunc" where
  "withCustomAWSCABundle isHypershift cloudConfigLister deployment =
     (case customAWSCABundle isHypershift cloudConfigLister of
        (configName, Some err) \<Rightarrow>
          (deployment, Some (ErrorfW ''could not determine if a custom CA bundle is in use'' err))
      | (configName, None) \<Rightarrow>
          (if configName = '''' then (deployment, None)
           else
             (let d1 = setVolumes (Volumes (Spec deployment) @ [caBundleVolume configName]) deployment
              in (case mutateFirst ''csi-driver'' addCABundle (Containers (Spec d1)) of
                    Some cs \<Rightarrow> (setContainers cs d1, None)
                  | None \<Rightarrow>
                      (d1, Some (Errorf ''could not use custom CA bundle because the csi-driver container is missing from the deployment''))))))"

subsection \<open>The hooks that read the infrastructure object\<close>

text \<open>
  The loop over the service endpoints has no \<^verbatim>\<open>break\<close>: the URL of the last
  endpoint named \<^verbatim>\<open>ec2\<close> is the one kept.
\<close>

definition ec2EndPointOf :: "AWSServiceEndpoint list \<Rightarrow> string" where
  "ec2EndPointOf serviceEndPoints =
     foldl (\<lambda>ec2EndPoint serviceEndPoint.
              if se_Name serviceEndPoint = ''ec2'' then se_URL serviceEndPoint else ec2EndPoint)
       '''' serviceEndPoints"

definition withCustomEndPoint :: "InfrastructureLister \<Rightarrow> DeploymentHookFunc" where
  "withCustomEndPoint infraLister deployment =
     (case infraLister infrastructureName of
        Inl err \<Rightarrow> (deployment, Some err)
      | Inr infra \<Rightarrow>
          (case PlatformStatus infra of
             None \<Rightarrow> (deployment, None)
           | Some None \<Rightarrow> (deployment, None)
           | Some (Some aws) \<Rightarrow>
               let ec2EndPoint = ec2EndPointOf (ServiceEndpoints aws)
               in if ec2EndPoint = '''' then (deployment, None)
                  else
                    (case mutateFirst ''csi-driver''
                            (\<lambda>container. container\<lparr>c_Env := c_Env container @
                               [\<lparr>ev_Name = ''AWS_EC2_ENDPOINT'', ev_Value = ec2EndPoint\<rparr>]\<rparr>)
                            (Containers (Spec deployment)) of
                       Some cs \<Rightarrow> (setContainers cs deployment, None)
                     | None \<Rightarrow> (deployment, None))))"

text \<open>\<^verbatim>\<open>strings.Join\<close>.\<close>

fun strings_Join :: "string list \<Rightarrow> string \<Rightarrow> string" where
  "strings_Join [] sep = ''''"
| "strings_Join [x] sep = x"
| "strings_Join (x # y # ys) sep = x @ sep @ strings_Join (y # ys) sep"

definition tagsArgumentOf :: "AWSResourceTag list \<Rightarrow> string" where
  "tagsArgumentOf userTags =
     (let tagPairs = map (\<lambda>userTag. rt_Key userTag @ ''='' @ rt_Value userTag) userTags;
          tags = strings_Join tagPairs '',''
      in ''--extra-tags='' @ tags)"

definition withCustomTags :: "InfrastructureLister \<Rightarrow> DeploymentHookFunc" where
  "withCustomTags infraLister deployment =
     (case infraLister infrastructureName of
        Inl err \<Rightarrow> (deployment, Some err)
      | Inr infra \<Rightarrow>
          (case PlatformStatus infra of
             None \<Rightarrow> (deployment, None)
           | Some None \<Rightarrow> (deployment, None)
           | Some (Some aws) \<Rightarrow>
               let userTags = ResourceTags aws
               in if length userTags = 0 then (deployment, None)
                  else
                    let tagsArgument = tagsArgumentOf userTags
                    in (setContainers
                          (mutateEach ''csi-driver''
                             (\<lambda>container. container\<lparr>c_Args := c_Args container @ [tagsArgument]\<rparr>)
                             (Containers (Spec deployment)))
                          deployment, None)))"

definition withAWSRegion :: "InfrastructureLister \<Rightarrow> DeploymentHookFunc" where
  "withAWSRegion infraLister deployment =
     (case infraLister infrastructureName of
        Inl err \<Rightarrow> (deployment, Some err)
      | Inr infra \<Rightarrow>
          (case PlatformStatus infra of
             None \<Rightarrow> (deployment, None)
           | Some None \<Rightarrow> (deployment, None)
           | Some (Some aws) \<Rightarrow>
               let region = Region aws
               in if region = '''' then (deployment, None)
                  else
                    (setContainers
                       (mutateEach ''csi-driver''
                          (\<lambda>container. container\<lparr>c_Env := c_Env container @
                             [\<lparr>ev_Name = ''AWS_REGION'', ev_Value = region\<rparr>]\<rparr>)
                          (Containers (Spec deployment)))
                       deployment, None)))"

subsection \<open>The namespace hook and the hosted-topology hooks\<close>

definition withNamespaceDeploymentHook :: "string \<Rightarrow> DeploymentHookFunc" where
  "withNamespaceDeploymentHook namespace deployment = (deployment\<lparr>Namespace := namespace\<rparr>, None)"

text \<open>
  Outside hosted topology the replicas hook is the library's
  \<^verbatim>\<open>WithReplicasHook(guestNodeLister)\<close>, taken here as the parameter
  \<open>withReplicasHook\<close>.
\<close>

definition withHypershiftReplicasHook :: "bool \<Rightarrow> DeploymentHookFunc \<Rightarrow> DeploymentHookFunc" where
  "withHypershiftReplicasHook isHypershift withReplicasHook =
     (if \<not> isHypershift then withReplicasHook
      else (\<lambda>deployment. (deployment\<lparr>Replicas := Some 1\<rparr>, None)))"

definition hostedKubeconfigVolume :: Volume where
  "hostedKubeconfigVolume =
     \<lparr>v_Name = ''hosted-kubeconfig'',
      v_VolumeSource = \<lparr>vs_Secret = Some ''admin-kubeconfig'', vs_ConfigMap = None,
                        vs_EmptyDir = None, vs_Other = None\<rparr>\<rparr>"

definition memoryEmptyDir :: VolumeSource where
  "memoryEmptyDir =
     \<lparr>vs_Secret = None, vs_ConfigMap = None,
      vs_EmptyDir = Some StorageMediumMemory, vs_Other = None\<rparr>"

text \<open>Lines 540 to 549: every volume named \<^verbatim>\<open>bound-sa-token\<close> gets the new source.\<close>

definition emptyBoundSAToken :: "Volume list \<Rightarrow> Volume list" where
  "emptyBoundSAToken vs =
     map (\<lambda>v. if v_Name v \<noteq> ''bound-sa-token'' then v
              else v\<lparr>v_VolumeSource := memoryEmptyDir\<rparr>) vs"

text \<open>
  Lines 552 to 557: at the first index \<open>i\<close> whose volume is named
  \<^verbatim>\<open>metrics-serving-cert\<close> the list becomes \<^verbatim>\<open>Volumes[:i]\<close> followed by
  \<^verbatim>\<open>Volumes[i+1:]\<close>, and the loop breaks.
\<close>

fun removeMetricsServingCert :: "Volume list \<Rightarrow> Volume list" where
  "removeMetricsServingCert [] = []"
| "removeMetricsServingCert (v # vs) =
     (if v_Name v = ''metrics-serving-cert'' then vs
      else v # removeMetricsServingCert vs)"

text \<open>The two \<^verbatim>\<open>switch\<close> statements on a container's name.\<close>

definition isKubeRBACProxy :: "string \<Rightarrow> bool" where
  "isKubeRBACProxy name =
     (name = ''driver-kube-rbac-proxy'' \<or> name = ''provisioner-kube-rbac-proxy'' \<or>
      name = ''attacher-kube-rbac-proxy'' \<or> name = ''resizer-kube-rbac-proxy'' \<or>
      name = ''snapshotter-kube-rbac-proxy'')"

definition isCSISidecar :: "string \<Rightarrow> bool" where
  "isCSISidecar name =
     (name = ''csi-provisioner'' \<or> name = ''csi-attacher'' \<or>
      name = ''csi-snapshotter'' \<or> name = ''csi-resizer'')"

definition filterKubeRBACProxies :: "Container list \<Rightarrow> Container list" where
  "filterKubeRBACProxies cs = filter (\<lambda>c. \<not> isKubeRBACProxy (c_Name c)) cs"

definition addHostedKubeconfig :: "Container \<Rightarrow> Container" where
  "addHostedKubeconfig container =
     container\<lparr>c_Args := c_Args container @ [''--kubeconfig=$(KUBECONFIG)''],
               c_Env := c_Env container @
                  [\<lparr>ev_Name = ''KUBECONFIG'', ev_Value = ''/etc/hosted-kubernetes/kubeconfig''\<rparr>],
               c_VolumeMounts := c_VolumeMounts container @
                  [\<lparr>vm_Name = ''hosted-kubeconfig'', vm_MountPath = ''/etc/hosted-kubernetes'',
                    vm_ReadOnly = True\<rparr>]\<rparr>"

definition injectHostedKubeconfig :: "Container list \<Rightarrow> Container list" where
  "injectHostedKubeconfig cs =
     map (\<lambda>container. if isCSISidecar (c_Name container) then addHostedKubeconfig container
                      else container) cs"

text \<open>
  The quantities are the arguments of \<^verbatim>\<open>resource.MustParse\<close>, kept as written. The
  mount of \<^verbatim>\<open>bound-sa-token\<close> leaves \<^verbatim>\<open>ReadOnly\<close> at its zero value.
\<close>

definition tokenMinter :: "string \<Rightarrow> Container" where
  "tokenMinter hypershiftImage =
     \<lparr>c_Name = ''token-minter'',
      c_Image = hypershiftImage,
      c_ImagePullPolicy = PullIfNotPresent,
      c_Command = [''/usr/bin/control-plane-operator'', ''token-minter''],
      c_Args = [''--service-account-namespace=openshift-cluster-csi-drivers'',
                ''--service-account-name=aws-ebs-csi-driver-controller-sa'',
                ''--token-audience=openshift'',
                ''--token-file=/var/run/secrets/openshift/serviceaccount/token'',
                ''--kubeconfig=/etc/hosted-kubernetes/kubeconfig''],
      c_Env = [],
      c_Resources_Requests = [ResourceCPU \<mapsto> ''10m'', ResourceMemory \<mapsto> ''10Mi''],
      c_VolumeMounts =
        [\<lparr>vm_Name = ''bound-sa-token'',
          vm_MountPath = ''/var/run/secrets/openshift/serviceaccount'', vm_ReadOnly = False\<rparr>,
         \<lparr>vm_Name = ''hosted-kubeconfig'', vm_MountPath = ''/etc/hosted-kubernetes'',
          vm_ReadOnly = True\<rparr>]\<rparr>"

definition withHypershiftDeploymentHook :: "bool \<Rightarrow> string \<Rightarrow> DeploymentHookFunc" where
  "withHypershiftDeploymentHook isHypershift hypershiftImage deployment =
     (if \<not> isHypershift then (deployment, None)
      else
        let podSpec = (Spec deployment)\<lparr>PriorityClassName := hypershiftPriorityClass\<rparr>;
            podSpec = podSpec\<lparr>Volumes := Volumes podSpec @ [hostedKubeconfigVolume]\<rparr>;
            podSpec = podSpec\<lparr>Volumes := emptyBoundSAToken (Volumes podSpec)\<rparr>;
            podSpec = podSpec\<lparr>Volumes := removeMetricsServingCert (Volumes podSpec)\<rparr>;
            filtered = filterKubeRBACProxies (Containers podSpec);
            podSpec = podSpec\<lparr>Containers := filtered\<rparr>;
            podSpec = podSpec\<lparr>Containers := injectHostedKubeconfig (Containers podSpec)\<rparr>;
            podSpec = podSpec\<lparr>Containers := Containers podSpec @ [tokenMinter hypershiftImage]\<rparr>
        in (deployment\<lparr>Spec := podSpec\<rparr>, None))"

subsection \<open>The config mirror\<close>

record ResourceLocation =
  rl_Namespace :: string
  rl_Name :: string

record SyncRule =
  destination :: ResourceLocation
  source :: ResourceLocation

text \<open>
  Modelled from the spec: \<^verbatim>\<open>SyncConfigMap\<close> and the sync pass of the resource sync
  controller, library code outside \<^verbatim>\<open>starter.go\<close>. The spec's contract of the
  mirror: it "observes a named config object in a source namespace; on add/update,
  computes and applies desired content to a destination (namespace, name); on source
  deletion, deletes the destination", and "Source not-found is not an error". The
  store holds the config maps of the cluster by location; \<open>SyncConfigMap\<close> registers
  the rule, whose order of arguments is destination first; \<open>syncPass\<close> is one pass of the
  controller.
\<close>

type_synonym store = "ResourceLocation \<Rightarrow> ConfigMap option"

definition SyncConfigMap :: "ResourceLocation \<Rightarrow> ResourceLocation \<Rightarrow> SyncRule" where
  "SyncConfigMap dst src = \<lparr>destination = dst, source = src\<rparr>"

definition syncPass :: "SyncRule \<Rightarrow> store \<Rightarrow> store" where
  "syncPass rule st =
     (case st (source rule) of
        None \<Rightarrow> st(destination rule := None)
      | Some cm \<Rightarrow> st(destination rule := Some cm))"

text \<open>
  \<^verbatim>\<open>newCustomAWSBundleSyncer\<close>, from the source: the two locations it builds and the
  rule it registers.
\<close>

definition newCustomAWSBundleSyncer :: "string \<Rightarrow> SyncRule" where
  "newCustomAWSBundleSyncer destinationNamespace =
     (let srcConfigMap = \<lparr>rl_Namespace = cloudConfigNamespace, rl_Name = cloudConfigName\<rparr>;
          dstConfigMap = \<lparr>rl_Namespace = destinationNamespace, rl_Name = cloudConfigName\<rparr>
      in SyncConfigMap dstConfigMap srcConfigMap)"

subsection \<open>Example inputs\<close>

text \<open>
  Concrete cluster states and deployments, on which the theorems below are
  instantiated: a controller deployment in the shape of the operator's asset, an
  infrastructure object of an AWS cluster, and the states of the cloud-config map.
\<close>

definition crdMissing :: "string \<Rightarrow> error + unit" where
  "crdMissing name = Inl StatusNotFound"

definition exampleContainer :: "string \<Rightarrow> Container" where
  "exampleContainer name =
     \<lparr>c_Name = name, c_Image = ''quay.io/openshift/origin-example'',
      c_ImagePullPolicy = PullIfNotPresent, c_Command = [], c_Args = [''--v=2''],
      c_Env = [], c_Resources_Requests = Map.empty, c_VolumeMounts = []\<rparr>"

definition exampleVolume :: "string \<Rightarrow> Volume" where
  "exampleVolume name =
     \<lparr>v_Name = name,
      v_VolumeSource = \<lparr>vs_Secret = Some name, vs_ConfigMap = None,
                        vs_EmptyDir = None, vs_Other = None\<rparr>\<rparr>"

definition examplePod :: "Volume list \<Rightarrow> Container list \<Rightarrow> Deployment" where
  "examplePod vs cs =
     \<lparr>Namespace = ''openshift-cluster-csi-drivers'', Replicas = Some 2,
      Spec = \<lparr>Volumes = vs, Containers = cs, PriorityClassName = ''system-cluster-critical''\<rparr>\<rparr>"

definition exampleDeployment :: Deployment where
  "exampleDeployment =
     examplePod
       [exampleVolume ''bound-sa-token'', exampleVolume ''metrics-serving-cert'',
        exampleVolume ''socket-dir'', exampleVolume ''metrics-serving-cert'']
       [exampleContainer ''csi-driver'', exampleContainer ''driver-kube-rbac-proxy'',
        exampleContainer ''csi-provisioner'']"

definition sidecarOnlyDeployment :: Deployment where
  "sidecarOnlyDeployment =
     examplePod [exampleVolume ''socket-dir''] [exampleContainer ''csi-provisioner'']"

definition taggedDeployment :: Deployment where
  "taggedDeployment =
     examplePod [exampleVolume ''socket-dir'']
       [(exampleContainer ''csi-driver'')\<lparr>c_Args := [''--extra-tags=env=prod,team=storage'']\<rparr>]"

definition exampleAWS :: AWSPlatformStatus where
  "exampleAWS =
     \<lparr>Region = ''us-east-1'', ServiceEndpoints = [],
      ResourceTags = [\<lparr>rt_Key = ''env'', rt_Value = ''prod''\<rparr>,
                      \<lparr>rt_Key = ''team'', rt_Value = ''storage''\<rparr>]\<rparr>"

definition exampleInfraLister :: InfrastructureLister where
  "exampleInfraLister name =
     (if name = infrastructureName then Inr \<lparr>PlatformStatus = Some (Some exampleAWS)\<rparr>
      else Inl StatusNotFound)"

definition bareAWS :: AWSPlatformStatus where
  "bareAWS = \<lparr>Region = '''', ServiceEndpoints = [], ResourceTags = []\<rparr>"

definition bareInfraLister :: InfrastructureLister where
  "bareInfraLister name =
     (if name = infrastructureName then Inr \<lparr>PlatformStatus = Some (Some bareAWS)\<rparr>
      else Inl StatusNotFound)"

definition otherPlatformInfraLister :: InfrastructureLister where
  "otherPlatformInfraLister name =
     (if name = infrastructureName then Inr \<lparr>PlatformStatus = Some None\<rparr>
      else Inl StatusNotFound)"

definition cloudConfigAbsent :: ConfigMapNamespaceLister where
  "cloudConfigAbsent name = Inl StatusNotFound"

definition cloudConfigWithoutKey :: ConfigMapNamespaceLister where
  "cloudConfigWithoutKey name =
     (if name = cloudConfigName then Inr \<lparr>Data = [''cloud.conf'' \<mapsto> ''[Global]'']\<rparr>
      else Inl StatusNotFound)"

definition cloudConfigWithBundle :: ConfigMapNamespaceLister where
  "cloudConfigWithBundle name =
     (if name = cloudConfigName then Inr \<lparr>Data = [caBundleKey \<mapsto> ''PEM'']\<rparr>
      else Inl StatusNotFound)"

definition emptyStore :: store where
  "emptyStore loc = None"

definition sourceOnlyStore :: store where
  "sourceOnlyStore loc =
     (if loc = \<lparr>rl_Namespace = cloudConfigNamespace, rl_Name = cloudConfigName\<rparr>
      then Some \<lparr>Data = [caBundleKey \<mapsto> ''PEM'']\<rparr> else None)"

section \<open>Properties\<close>

subsection \<open>Unfolding the example inputs and the hooks\<close>

lemmas example_defs = exampleDeployment_def examplePod_def exampleContainer_def exampleVolume_def
  sidecarOnlyDeployment_def taggedDeployment_def

lemmas hosted_defs = withHypershiftDeploymentHook_def withHypershiftReplicasHook_def Let_def
  emptyBoundSAToken_def hostedKubeconfigVolume_def memoryEmptyDir_def filterKubeRBACProxies_def
  isKubeRBACProxy_def isCSISidecar_def injectHostedKubeconfig_def addHostedKubeconfig_def
  tokenMinter_def hypershiftPriorityClass_def

lemmas lister_defs = exampleInfraLister_def bareInfraLister_def otherPlatformInfraLister_def
  cloudConfigAbsent_def cloudConfigWithoutKey_def cloudConfigWithBundle_def exampleAWS_def bareAWS_def
  infrastructureName_def cloudConfigName_def caBundleKey_def

lemmas ca_defs = withCustomAWSCABundle_def customAWSCABundle_def Let_def caBundleVolume_def
  addCABundle_def setVolumes_def setContainers_def

lemmas infra_defs = withAWSRegion_def withCustomTags_def withCustomEndPoint_def Let_def
  mutateEach_def setContainers_def tagsArgumentOf_def ec2EndPointOf_def

subsection \<open>Facts about the loops\<close>

lemma mutateFirst_None_iff:
  "mutateFirst n f cs = None \<longleftrightarrow> (\<forall>c\<in>set cs. c_Name c \<noteq> n)"
  by (induction cs) auto

lemma mutateFirst_Some_decomp:
  "mutateFirst n f cs = Some cs' \<Longrightarrow>
     \<exists>pre c post. cs = pre @ c # post \<and> (\<forall>x\<in>set pre. c_Name x \<noteq> n) \<and> c_Name c = n \<and>
        cs' = pre @ f c # post"
proof (induction cs arbitrary: cs')
  case Nil
  then show ?case by simp
next
  case (Cons a cs)
  show ?case
  proof (cases "c_Name a = n")
    case True
    with Cons.prems have "cs' = f a # cs" by simp
    with True have "a # cs = [] @ a # cs \<and> (\<forall>x\<in>set []. c_Name x \<noteq> n) \<and> c_Name a = n \<and>
        cs' = [] @ f a # cs" by simp
    then show ?thesis by blast
  next
    case False
    with Cons.prems obtain r where r: "mutateFirst n f cs = Some r" and cs': "cs' = a # r"
      by auto
    from Cons.IH [OF r] obtain pre c post where
      d: "cs = pre @ c # post" "\<forall>x\<in>set pre. c_Name x \<noteq> n" "c_Name c = n" "r = pre @ f c # post"
      by blast
    with False cs' have "a # cs = (a # pre) @ c # post \<and> (\<forall>x\<in>set (a # pre). c_Name x \<noteq> n) \<and>
        c_Name c = n \<and> cs' = (a # pre) @ f c # post" by simp
    then show ?thesis by blast
  qed
qed

lemma removeMetricsServingCert_first:
  "\<forall>u\<in>set pre. v_Name u \<noteq> ''metrics-serving-cert'' \<Longrightarrow> v_Name v = ''metrics-serving-cert'' \<Longrightarrow>
     removeMetricsServingCert (pre @ v # post) = pre @ post"
  by (induction pre) auto

lemma removeMetricsServingCert_none:
  "\<forall>u\<in>set vs. v_Name u \<noteq> ''metrics-serving-cert'' \<Longrightarrow> removeMetricsServingCert vs = vs"
  by (induction vs) auto

lemma removeMetricsServingCert_subset:
  "set (removeMetricsServingCert vs) \<subseteq> set vs"
  by (induction vs) auto

lemma removeMetricsServingCert_keeps:
  "v \<in> set vs \<Longrightarrow> v_Name v \<noteq> ''metrics-serving-cert'' \<Longrightarrow> v \<in> set (removeMetricsServingCert vs)"
  by (induction vs) auto

lemma removeMetricsServingCert_filter_tl:
  "filter (\<lambda>v. v_Name v = ''metrics-serving-cert'') (removeMetricsServingCert vs) =
     tl (filter (\<lambda>v. v_Name v = ''metrics-serving-cert'') vs)"
  by (induction vs) auto

lemma emptyBoundSAToken_append:
  "emptyBoundSAToken (xs @ ys) = emptyBoundSAToken xs @ emptyBoundSAToken ys"
  by (simp add: emptyBoundSAToken_def)

lemma emptyBoundSAToken_hosted:
  "emptyBoundSAToken [hostedKubeconfigVolume] = [hostedKubeconfigVolume]"
  by (simp add: emptyBoundSAToken_def hostedKubeconfigVolume_def)

lemma emptyBoundSAToken_names:
  "(\<forall>u\<in>set (emptyBoundSAToken vs). v_Name u \<noteq> n) \<longleftrightarrow> (\<forall>u\<in>set vs. v_Name u \<noteq> n)"
  by (induction vs) (auto simp: emptyBoundSAToken_def)

lemma filter_name_emptyBoundSAToken:
  "length (filter (\<lambda>v. v_Name v = n) (emptyBoundSAToken vs)) = length (filter (\<lambda>v. v_Name v = n) vs)"
  by (induction vs) (auto simp: emptyBoundSAToken_def)

lemma ec2EndPointOf_none_aux:
  "\<forall>e\<in>set es. se_Name e \<noteq> ''ec2'' \<Longrightarrow>
     foldl (\<lambda>ec2EndPoint serviceEndPoint.
              if se_Name serviceEndPoint = ''ec2'' then se_URL serviceEndPoint else ec2EndPoint) acc es = acc"
  by (induction es arbitrary: acc) simp_all

lemma ec2EndPointOf_none:
  "\<forall>e\<in>set es. se_Name e \<noteq> ''ec2'' \<Longrightarrow> ec2EndPointOf es = ''''"
  unfolding ec2EndPointOf_def by (rule ec2EndPointOf_none_aux)

lemma tagsArgumentOf_two:
  "tagsArgumentOf [\<lparr>rt_Key = k1, rt_Value = v1\<rparr>, \<lparr>rt_Key = k2, rt_Value = v2\<rparr>] =
     ''--extra-tags='' @ k1 @ ''='' @ v1 @ '','' @ k2 @ ''='' @ v2"
  by (simp add: tagsArgumentOf_def)

subsection \<open>The conditional resource gate\<close>

text \<open>
  Claim C5. Whenever the probe for the custom resource definition
  \<^verbatim>\<open>volumesnapshotclasses.snapshot.storage.k8s.io\<close> returns an error, a not-found
  error among them, the install predicate is false, and the gate's decision for the
  volume snapshot class is not \<open>Install\<close>.
\<close>

theorem installPredicate_false_on_probe_failure:
  "crdGet ''volumesnapshotclasses.snapshot.storage.k8s.io'' = Inl err \<Longrightarrow>
     installPredicate crdGet = False \<and> volumeSnapshotClassGate crdGet \<noteq> Install"
  by (simp add: installPredicate_def volumeSnapshotClassGate_def evaluate_def)

theorem installPredicate_false_on_probe_failure_witness:
  "crdMissing ''volumesnapshotclasses.snapshot.storage.k8s.io'' = Inl StatusNotFound \<and>
   installPredicate crdMissing = False \<and> volumeSnapshotClassGate crdMissing \<noteq> Install"
  using installPredicate_false_on_probe_failure [of crdMissing StatusNotFound]
  by (simp add: crdMissing_def)

text \<open>
  Claim C6. The delete predicate of the gate is constantly false, whatever the
  cluster answers, and so the gate's decision is never \<open>Remove\<close>.
\<close>

theorem deletePredicate_never_removes:
  "deletePredicate crdGet = False \<and> volumeSnapshotClassGate crdGet \<noteq> Remove"
  by (simp add: deletePredicate_def volumeSnapshotClassGate_def evaluate_def)

subsection \<open>The hosted-topology hooks\<close>

lemma hosted_volumes:
  "Volumes (Spec (fst (withHypershiftDeploymentHook True img d))) =
     removeMetricsServingCert (emptyBoundSAToken (Volumes (Spec d) @ [hostedKubeconfigVolume]))"
  by (simp add: withHypershiftDeploymentHook_def Let_def)

lemma hosted_containers:
  "Containers (Spec (fst (withHypershiftDeploymentHook True img d))) =
     injectHostedKubeconfig (filterKubeRBACProxies (Containers (Spec d))) @ [tokenMinter img]"
  by (simp add: withHypershiftDeploymentHook_def Let_def)

lemma hosted_result:
  "withHypershiftDeploymentHook True img d = (d1, e1) \<Longrightarrow>
     e1 = None \<and> d1 = fst (withHypershiftDeploymentHook True img d)"
  by (auto simp: withHypershiftDeploymentHook_def Let_def)

lemma hosted_priority:
  "PriorityClassName (Spec (fst (withHypershiftDeploymentHook True img d))) = hypershiftPriorityClass"
  by (simp add: withHypershiftDeploymentHook_def Let_def)

lemma c_Name_addHostedKubeconfig: "c_Name (addHostedKubeconfig c) = c_Name c"
  by (simp add: addHostedKubeconfig_def)

lemma c_Name_injectHostedKubeconfig:
  "map c_Name (injectHostedKubeconfig cs) = map c_Name cs"
  by (induction cs) (simp_all add: injectHostedKubeconfig_def c_Name_addHostedKubeconfig)

lemma hosted_container_names:
  "map c_Name (Containers (Spec (fst (withHypershiftDeploymentHook True img d)))) =
     filter (\<lambda>n. \<not> isKubeRBACProxy n) (map c_Name (Containers (Spec d))) @ [''token-minter'']"
  by (simp add: hosted_containers c_Name_injectHostedKubeconfig filterKubeRBACProxies_def
      filter_map comp_def tokenMinter_def)

lemma hosted_sidecar_origin:
  assumes "c \<in> set (Containers (Spec (fst (withHypershiftDeploymentHook True img d))))"
    and "isCSISidecar (c_Name c)"
  shows "\<exists>c0\<in>set (Containers (Spec d)). c_Name c0 = c_Name c \<and> c = addHostedKubeconfig c0"
proof -
  from assms(2) have "c \<noteq> tokenMinter img"
    by (auto simp: tokenMinter_def isCSISidecar_def)
  with assms(1) have "c \<in> set (injectHostedKubeconfig (filterKubeRBACProxies (Containers (Spec d))))"
    by (simp add: hosted_containers)
  then obtain c0 where c0: "c0 \<in> set (Containers (Spec d))"
    and c: "c = (if isCSISidecar (c_Name c0) then addHostedKubeconfig c0 else c0)"
    by (auto simp: injectHostedKubeconfig_def filterKubeRBACProxies_def)
  from c have n: "c_Name c = c_Name c0" by (simp add: c_Name_addHostedKubeconfig)
  with assms(2) c have "c = addHostedKubeconfig c0" by simp
  with c0 n show ?thesis by auto
qed

lemma hosted_bound_sa_token_source:
  assumes "v \<in> set (Volumes (Spec (fst (withHypershiftDeploymentHook True img d))))"
    and "v_Name v = ''bound-sa-token''"
  shows "v_VolumeSource v = memoryEmptyDir"
proof -
  from assms(1) have "v \<in> set (removeMetricsServingCert
      (emptyBoundSAToken (Volumes (Spec d) @ [hostedKubeconfigVolume])))"
    by (simp only: hosted_volumes)
  then have "v \<in> set (emptyBoundSAToken (Volumes (Spec d) @ [hostedKubeconfigVolume]))"
    using removeMetricsServingCert_subset by blast
  then have "v \<in> (\<lambda>u. if v_Name u \<noteq> ''bound-sa-token'' then u
      else u\<lparr>v_VolumeSource := memoryEmptyDir\<rparr>) ` set (Volumes (Spec d) @ [hostedKubeconfigVolume])"
    by (simp only: emptyBoundSAToken_def set_map)
  then obtain u where "v = (if v_Name u \<noteq> ''bound-sa-token'' then u
      else u\<lparr>v_VolumeSource := memoryEmptyDir\<rparr>)"
    by blast
  with assms(2) show ?thesis
    by (cases "v_Name u \<noteq> ''bound-sa-token''") simp_all
qed

lemma hosted_bound_sa_token_kept:
  assumes "v \<in> set (Volumes (Spec d))" and "v_Name v = ''bound-sa-token''"
  shows "v\<lparr>v_VolumeSource := memoryEmptyDir\<rparr> \<in> set (Volumes (Spec (fst (withHypershiftDeploymentHook True img d))))"
proof -
  let ?f = "\<lambda>u. if v_Name u \<noteq> ''bound-sa-token'' then u
      else u\<lparr>v_VolumeSource := memoryEmptyDir\<rparr>"
  from assms(1) have "?f v \<in> ?f ` set (Volumes (Spec d) @ [hostedKubeconfigVolume])"
    by (intro imageI) simp
  with assms(2) have "v\<lparr>v_VolumeSource := memoryEmptyDir\<rparr> \<in>
      set (emptyBoundSAToken (Volumes (Spec d) @ [hostedKubeconfigVolume]))"
    by (simp only: emptyBoundSAToken_def set_map) simp
  moreover from assms(2) have "v_Name (v\<lparr>v_VolumeSource := memoryEmptyDir\<rparr>) \<noteq> ''metrics-serving-cert''"
    by simp
  ultimately show ?thesis
    unfolding hosted_volumes by (rule removeMetricsServingCert_keeps)
qed

text \<open>
  Claim C1. Take a base deployment with containers named
  \<^verbatim>\<open>driver-kube-rbac-proxy\<close> and \<^verbatim>\<open>csi-provisioner\<close> and a volume named
  \<^verbatim>\<open>bound-sa-token\<close>, and run \<open>withHypershiftDeploymentHook\<close> and then
  \<open>withHypershiftReplicasHook\<close> on it, both for hosted topology. Neither hook returns
  an error, and in the resulting deployment: no container is named
  \<^verbatim>\<open>driver-kube-rbac-proxy\<close>; there is a \<^verbatim>\<open>csi-provisioner\<close> container, and each
  one is a \<^verbatim>\<open>csi-provisioner\<close> container of the base whose args are followed by
  \<^verbatim>\<open>--kubeconfig=$(KUBECONFIG)\<close>, whose env is followed by
  \<^verbatim>\<open>KUBECONFIG=/etc/hosted-kubernetes/kubeconfig\<close> and whose volume mounts are
  followed by \<^verbatim>\<open>hosted-kubeconfig\<close> at \<^verbatim>\<open>/etc/hosted-kubernetes\<close>; there is a
  volume named \<^verbatim>\<open>bound-sa-token\<close>, and the source of each one is an empty directory
  on the memory medium and nothing else; the replica count is 1; the priority class is
  \<^verbatim>\<open>hypershift-control-plane\<close>.
\<close>

theorem hosted_topology_hooks:
  assumes proxy: "\<exists>c\<in>set (Containers (Spec d)). c_Name c = ''driver-kube-rbac-proxy''"
    and prov: "\<exists>c\<in>set (Containers (Spec d)). c_Name c = ''csi-provisioner''"
    and tok: "\<exists>v\<in>set (Volumes (Spec d)). v_Name v = ''bound-sa-token''"
    and h1: "withHypershiftDeploymentHook True hypershiftImage d = (dh, eh)"
    and h2: "withHypershiftReplicasHook True withReplicasHook dh = (dr, er)"
  shows "eh = None \<and> er = None \<and>
    (\<forall>c\<in>set (Containers (Spec dr)). c_Name c \<noteq> ''driver-kube-rbac-proxy'') \<and>
    (\<exists>c\<in>set (Containers (Spec dr)). c_Name c = ''csi-provisioner'') \<and>
    (\<forall>c\<in>set (Containers (Spec dr)). c_Name c = ''csi-provisioner'' \<longrightarrow>
       (\<exists>c0\<in>set (Containers (Spec d)). c_Name c0 = ''csi-provisioner'' \<and>
          c_Args c = c_Args c0 @ [''--kubeconfig=$(KUBECONFIG)''] \<and>
          c_Env c = c_Env c0 @
            [\<lparr>ev_Name = ''KUBECONFIG'', ev_Value = ''/etc/hosted-kubernetes/kubeconfig''\<rparr>] \<and>
          c_VolumeMounts c = c_VolumeMounts c0 @
            [\<lparr>vm_Name = ''hosted-kubeconfig'', vm_MountPath = ''/etc/hosted-kubernetes'',
              vm_ReadOnly = True\<rparr>])) \<and>
    (\<exists>v\<in>set (Volumes (Spec dr)). v_Name v = ''bound-sa-token'') \<and>
    (\<forall>v\<in>set (Volumes (Spec dr)). v_Name v = ''bound-sa-token'' \<longrightarrow>
       v_VolumeSource v = \<lparr>vs_Secret = None, vs_ConfigMap = None,
                            vs_EmptyDir = Some StorageMediumMemory, vs_Other = None\<rparr>) \<and>
    Replicas dr = Some 1 \<and>
    PriorityClassName (Spec dr) = ''hypershift-control-plane''"
proof -
  let ?dh = "fst (withHypershiftDeploymentHook True hypershiftImage d)"
  from hosted_result [OF h1] have eh: "eh = None" and dh: "dh = ?dh" by simp_all
  from h2 have er: "er = None" and dr: "dr = dh\<lparr>Replicas := Some 1\<rparr>"
    by (auto simp: withHypershiftReplicasHook_def)
  have sp: "Spec dr = Spec ?dh" using dh dr by simp
  have names: "map c_Name (Containers (Spec dr)) =
      filter (\<lambda>n. \<not> isKubeRBACProxy n) (map c_Name (Containers (Spec d))) @ [''token-minter'']"
    unfolding sp by (rule hosted_container_names)
  have no_proxy: "\<forall>c\<in>set (Containers (Spec dr)). c_Name c \<noteq> ''driver-kube-rbac-proxy''"
  proof
    fix c assume "c \<in> set (Containers (Spec dr))"
    then have "c_Name c \<in> set (map c_Name (Containers (Spec dr)))" by simp
    then show "c_Name c \<noteq> ''driver-kube-rbac-proxy''"
      unfolding names by (auto simp: isKubeRBACProxy_def)
  qed
  have has_prov: "\<exists>c\<in>set (Containers (Spec dr)). c_Name c = ''csi-provisioner''"
  proof -
    from prov have "''csi-provisioner'' \<in> set (map c_Name (Containers (Spec d)))" by force
    then have "''csi-provisioner'' \<in> set (map c_Name (Containers (Spec dr)))"
      unfolding names by (simp add: isKubeRBACProxy_def)
    then show ?thesis by auto
  qed
  have prov_ok: "\<forall>c\<in>set (Containers (Spec dr)). c_Name c = ''csi-provisioner'' \<longrightarrow>
       (\<exists>c0\<in>set (Containers (Spec d)). c_Name c0 = ''csi-provisioner'' \<and>
          c_Args c = c_Args c0 @ [''--kubeconfig=$(KUBECONFIG)''] \<and>
          c_Env c = c_Env c0 @
            [\<lparr>ev_Name = ''KUBECONFIG'', ev_Value = ''/etc/hosted-kubernetes/kubeconfig''\<rparr>] \<and>
          c_VolumeMounts c = c_VolumeMounts c0 @
            [\<lparr>vm_Name = ''hosted-kubeconfig'', vm_MountPath = ''/etc/hosted-kubernetes'',
              vm_ReadOnly = True\<rparr>])"
  proof (intro ballI impI)
    fix c assume c: "c \<in> set (Containers (Spec dr))" and n: "c_Name c = ''csi-provisioner''"
    from n have "isCSISidecar (c_Name c)" by (simp add: isCSISidecar_def)
    from hosted_sidecar_origin [OF c [unfolded sp] this]
    obtain c0 where c0: "c0 \<in> set (Containers (Spec d))" and n0: "c_Name c0 = c_Name c"
      and eq: "c = addHostedKubeconfig c0"
      by blast
    have 1: "c_Name c0 = ''csi-provisioner''" using n0 n by (rule trans)
    have 2: "c_Args c = c_Args c0 @ [''--kubeconfig=$(KUBECONFIG)'']"
      unfolding eq by (simp add: addHostedKubeconfig_def)
    have 3: "c_Env c = c_Env c0 @
            [\<lparr>ev_Name = ''KUBECONFIG'', ev_Value = ''/etc/hosted-kubernetes/kubeconfig''\<rparr>]"
      unfolding eq by (simp add: addHostedKubeconfig_def)
    have 4: "c_VolumeMounts c = c_VolumeMounts c0 @
            [\<lparr>vm_Name = ''hosted-kubeconfig'', vm_MountPath = ''/etc/hosted-kubernetes'',
              vm_ReadOnly = True\<rparr>]"
      unfolding eq by (simp add: addHostedKubeconfig_def)
    from c0 1 2 3 4
    show "\<exists>c0\<in>set (Containers (Spec d)). c_Name c0 = ''csi-provisioner'' \<and>
          c_Args c = c_Args c0 @ [''--kubeconfig=$(KUBECONFIG)''] \<and>
          c_Env c = c_Env c0 @
            [\<lparr>ev_Name = ''KUBECONFIG'', ev_Value = ''/etc/hosted-kubernetes/kubeconfig''\<rparr>] \<and>
          c_VolumeMounts c = c_VolumeMounts c0 @
            [\<lparr>vm_Name = ''hosted-kubeconfig'', vm_MountPath = ''/etc/hosted-kubernetes'',
              vm_ReadOnly = True\<rparr>]"
      by blast
  qed
  have has_tok: "\<exists>v\<in>set (Volumes (Spec dr)). v_Name v = ''bound-sa-token''"
  proof -
    from tok obtain v where v: "v \<in> set (Volumes (Spec d))" "v_Name v = ''bound-sa-token''" by blast
    from hosted_bound_sa_token_kept [OF v] v(2) show ?thesis
      unfolding sp by (intro bexI [of _ "v\<lparr>v_VolumeSource := memoryEmptyDir\<rparr>"]) simp_all
  qed
  have tok_ok: "\<forall>v\<in>set (Volumes (Spec dr)). v_Name v = ''bound-sa-token'' \<longrightarrow>
       v_VolumeSource v = \<lparr>vs_Secret = None, vs_ConfigMap = None,
                            vs_EmptyDir = Some StorageMediumMemory, vs_Other = None\<rparr>"
    unfolding sp using hosted_bound_sa_token_source by (auto simp: memoryEmptyDir_def)
  have rep: "Replicas dr = Some 1" using dr by simp
  have prio: "PriorityClassName (Spec dr) = ''hypershift-control-plane''"
    unfolding sp by (simp add: hosted_priority hypershiftPriorityClass_def)
  show ?thesis
    using eh er no_proxy has_prov prov_ok has_tok tok_ok rep prio
    by (intro conjI) assumption+
qed

theorem hosted_topology_hooks_witness:
  "map c_Name (Containers (Spec exampleDeployment)) =
     [''csi-driver'', ''driver-kube-rbac-proxy'', ''csi-provisioner''] \<and>
   map v_Name (Volumes (Spec exampleDeployment)) =
     [''bound-sa-token'', ''metrics-serving-cert'', ''socket-dir'', ''metrics-serving-cert''] \<and>
   snd (withHypershiftDeploymentHook True ''img'' exampleDeployment) = None \<and>
   snd (withHypershiftReplicasHook True (\<lambda>d. (d, None))
          (fst (withHypershiftDeploymentHook True ''img'' exampleDeployment))) = None \<and>
   map c_Name (Containers (Spec (fst (withHypershiftReplicasHook True (\<lambda>d. (d, None))
          (fst (withHypershiftDeploymentHook True ''img'' exampleDeployment)))))) =
     [''csi-driver'', ''csi-provisioner'', ''token-minter''] \<and>
   c_Args (Containers (Spec (fst (withHypershiftReplicasHook True (\<lambda>d. (d, None))
          (fst (withHypershiftDeploymentHook True ''img'' exampleDeployment))))) ! 1) =
     [''--v=2'', ''--kubeconfig=$(KUBECONFIG)''] \<and>
   map v_Name (Volumes (Spec (fst (withHypershiftReplicasHook True (\<lambda>d. (d, None))
          (fst (withHypershiftDeploymentHook True ''img'' exampleDeployment)))))) =
     [''bound-sa-token'', ''socket-dir'', ''metrics-serving-cert'', ''hosted-kubeconfig''] \<and>
   vs_EmptyDir (v_VolumeSource (Volumes (Spec (fst (withHypershiftReplicasHook True (\<lambda>d. (d, None))
          (fst (withHypershiftDeploymentHook True ''img'' exampleDeployment))))) ! 0)) = Some ''Memory'' \<and>
   Replicas (fst (withHypershiftReplicasHook True (\<lambda>d. (d, None))
          (fst (withHypershiftDeploymentHook True ''img'' exampleDeployment)))) = Some 1"
  using hosted_topology_hooks [where d = exampleDeployment and hypershiftImage = "''img''"
      and dh = "fst (withHypershiftDeploymentHook True ''img'' exampleDeployment)"
      and eh = "snd (withHypershiftDeploymentHook True ''img'' exampleDeployment)"
      and withReplicasHook = "\<lambda>d. (d, None)"
      and dr = "fst (withHypershiftReplicasHook True (\<lambda>d. (d, None))
          (fst (withHypershiftDeploymentHook True ''img'' exampleDeployment)))"
      and er = "snd (withHypershiftReplicasHook True (\<lambda>d. (d, None))
          (fst (withHypershiftDeploymentHook True ''img'' exampleDeployment)))"]
  by (simp add: example_defs hosted_defs StorageMediumMemory_def)

text \<open>
  Claim C7. Under hosted topology \<open>withHypershiftDeploymentHook\<close> removes the first
  volume named \<^verbatim>\<open>metrics-serving-cert\<close> and no other. If the base volumes are
  \<open>pre @ v # post\<close> with \<open>v\<close> the first volume of that name, the resulting volumes are
  those of \<open>pre\<close> and of \<open>post\<close>, in their order (each as the hook's step on
  \<^verbatim>\<open>bound-sa-token\<close> leaves it, which changes no name), followed by the
  \<^verbatim>\<open>hosted-kubeconfig\<close> volume the hook appends: every later volume of that name in
  \<open>post\<close> is kept. If no volume has that name, no volume is removed. In every case the
  number of volumes of that name drops by one, or stays at zero.
\<close>

theorem metrics_serving_cert_first_only:
  fixes d :: Deployment and img :: string
  defines "vs \<equiv> Volumes (Spec d)"
    and "vs' \<equiv> Volumes (Spec (fst (withHypershiftDeploymentHook True img d)))"
  shows "(\<forall>pre v post. vs = pre @ v # post \<and> (\<forall>u\<in>set pre. v_Name u \<noteq> ''metrics-serving-cert'') \<and>
            v_Name v = ''metrics-serving-cert'' \<longrightarrow>
            vs' = emptyBoundSAToken pre @ emptyBoundSAToken post @ [hostedKubeconfigVolume]) \<and>
         ((\<forall>u\<in>set vs. v_Name u \<noteq> ''metrics-serving-cert'') \<longrightarrow>
            vs' = emptyBoundSAToken vs @ [hostedKubeconfigVolume]) \<and>
         length (filter (\<lambda>v. v_Name v = ''metrics-serving-cert'') vs') =
           length (filter (\<lambda>v. v_Name v = ''metrics-serving-cert'') vs) - 1"
proof (intro conjI allI impI)
  fix pre v post
  assume a: "vs = pre @ v # post \<and> (\<forall>u\<in>set pre. v_Name u \<noteq> ''metrics-serving-cert'') \<and>
            v_Name v = ''metrics-serving-cert''"
  let ?v = "if v_Name v \<noteq> ''bound-sa-token'' then v else v\<lparr>v_VolumeSource := memoryEmptyDir\<rparr>"
  have e: "emptyBoundSAToken (vs @ [hostedKubeconfigVolume]) =
        emptyBoundSAToken pre @ ?v # (emptyBoundSAToken post @ [hostedKubeconfigVolume])"
    using a by (simp add: emptyBoundSAToken_def hostedKubeconfigVolume_def)
  have p: "\<forall>u\<in>set (emptyBoundSAToken pre). v_Name u \<noteq> ''metrics-serving-cert''"
    using a by (simp add: emptyBoundSAToken_names)
  have n: "v_Name ?v = ''metrics-serving-cert''" using a by simp
  show "vs' = emptyBoundSAToken pre @ emptyBoundSAToken post @ [hostedKubeconfigVolume]"
    unfolding vs'_def hosted_volumes vs_def [symmetric] e
    by (rule removeMetricsServingCert_first [OF p n])
next
  assume a: "\<forall>u\<in>set vs. v_Name u \<noteq> ''metrics-serving-cert''"
  have "\<forall>u\<in>set (emptyBoundSAToken (vs @ [hostedKubeconfigVolume])). v_Name u \<noteq> ''metrics-serving-cert''"
    using a by (simp add: emptyBoundSAToken_names) (simp add: hostedKubeconfigVolume_def)
  from removeMetricsServingCert_none [OF this]
  show "vs' = emptyBoundSAToken vs @ [hostedKubeconfigVolume]"
    unfolding vs'_def hosted_volumes vs_def [symmetric]
    by (simp add: emptyBoundSAToken_append emptyBoundSAToken_hosted)
next
  have "length (filter (\<lambda>v. v_Name v = ''metrics-serving-cert'') vs') =
        length (filter (\<lambda>v. v_Name v = ''metrics-serving-cert'')
           (emptyBoundSAToken (vs @ [hostedKubeconfigVolume]))) - 1"
    unfolding vs'_def hosted_volumes vs_def [symmetric]
    by (simp add: removeMetricsServingCert_filter_tl)
  also have "\<dots> = length (filter (\<lambda>v. v_Name v = ''metrics-serving-cert'') vs) - 1"
    by (simp add: filter_name_emptyBoundSAToken) (simp add: hostedKubeconfigVolume_def)
  finally show "length (filter (\<lambda>v. v_Name v = ''metrics-serving-cert'') vs') =
           length (filter (\<lambda>v. v_Name v = ''metrics-serving-cert'') vs) - 1" .
qed

theorem metrics_serving_cert_first_only_witness:
  "Volumes (Spec exampleDeployment) =
     [exampleVolume ''bound-sa-token''] @ exampleVolume ''metrics-serving-cert'' #
       [exampleVolume ''socket-dir'', exampleVolume ''metrics-serving-cert''] \<and>
   map v_Name (Volumes (Spec (fst (withHypershiftDeploymentHook True ''img'' exampleDeployment)))) =
     [''bound-sa-token'', ''socket-dir'', ''metrics-serving-cert'', ''hosted-kubeconfig''] \<and>
   map v_Name (Volumes (Spec sidecarOnlyDeployment)) = [''socket-dir''] \<and>
   map v_Name (Volumes (Spec (fst (withHypershiftDeploymentHook True ''img'' sidecarOnlyDeployment)))) =
     [''socket-dir'', ''hosted-kubeconfig'']"
  using metrics_serving_cert_first_only [of exampleDeployment "''img''"]
    metrics_serving_cert_first_only [of sidecarOnlyDeployment "''img''"]
  by (simp add: example_defs hosted_defs)

subsection \<open>The custom CA bundle hook\<close>

lemma customAWSCABundle_absent:
  "cloudConfigLister (if isHypershift then ''user-ca-bundle'' else cloudConfigName) = Inl err \<Longrightarrow>
     IsNotFound err \<Longrightarrow> customAWSCABundle isHypershift cloudConfigLister = ('''', None)"
  by (simp add: customAWSCABundle_def Let_def)

lemma customAWSCABundle_no_key:
  "cloudConfigLister (if isHypershift then ''user-ca-bundle'' else cloudConfigName) = Inr cm \<Longrightarrow>
     Data cm caBundleKey = None \<Longrightarrow> customAWSCABundle isHypershift cloudConfigLister = ('''', None)"
  by (simp add: customAWSCABundle_def Let_def)

lemma customAWSCABundle_key:
  "cloudConfigLister (if isHypershift then ''user-ca-bundle'' else cloudConfigName) = Inr cm \<Longrightarrow>
     Data cm caBundleKey = Some pem \<Longrightarrow>
     customAWSCABundle isHypershift cloudConfigLister =
       (if isHypershift then ''user-ca-bundle'' else cloudConfigName, None)"
  by (simp add: customAWSCABundle_def Let_def)

lemma withCustomAWSCABundle_unused:
  "customAWSCABundle isHypershift cloudConfigLister = ('''', None) \<Longrightarrow>
     withCustomAWSCABundle isHypershift cloudConfigLister d = (d, None)"
  by (simp add: withCustomAWSCABundle_def)

lemma withCustomAWSCABundle_used:
  assumes "customAWSCABundle isHypershift cloudConfigLister = (configName, None)"
    and "configName \<noteq> ''''"
  shows "withCustomAWSCABundle isHypershift cloudConfigLister d =
     (case mutateFirst ''csi-driver'' addCABundle (Containers (Spec d)) of
        Some cs \<Rightarrow>
          (d\<lparr>Spec := (Spec d)\<lparr>Volumes := Volumes (Spec d) @ [caBundleVolume configName],
                               Containers := cs\<rparr>\<rparr>, None)
      | None \<Rightarrow>
          (d\<lparr>Spec := (Spec d)\<lparr>Volumes := Volumes (Spec d) @ [caBundleVolume configName]\<rparr>\<rparr>,
           Some (Errorf ''could not use custom CA bundle because the csi-driver container is missing from the deployment'')))"
  using assms
  by (cases "mutateFirst ''csi-driver'' addCABundle (Containers (Spec d))")
    (simp_all add: withCustomAWSCABundle_def Let_def setVolumes_def setContainers_def)

text \<open>
  Claim C2. Let the deployment have a container named \<^verbatim>\<open>csi-driver\<close>, and let
  \<open>configName\<close> be the name the hook asks the lister for. If the lister answers
  not-found, the hook returns no error and the deployment is unchanged. If the config
  map exists and its data has no key \<^verbatim>\<open>ca-bundle.pem\<close>, the same. If the config map
  exists and has that key, the hook returns no error, the volumes are the base volumes
  followed by a volume \<^verbatim>\<open>ca-bundle\<close> whose source is the config map \<open>configName\<close>,
  and the first container named \<^verbatim>\<open>csi-driver\<close> has its env followed by
  \<^verbatim>\<open>AWS_CA_BUNDLE=/etc/ca/ca-bundle.pem\<close> and its volume mounts followed by a
  read-only mount of \<^verbatim>\<open>ca-bundle\<close> at \<^verbatim>\<open>/etc/ca\<close>; nothing else changes. The env
  value is the mount path, a slash and the key.
\<close>

theorem ca_bundle_hook_cases:
  fixes isHypershift :: bool and cloudConfigLister :: ConfigMapNamespaceLister and d :: Deployment
  defines "configName \<equiv> (if isHypershift then ''user-ca-bundle'' else cloudConfigName)"
  assumes drv: "\<exists>c\<in>set (Containers (Spec d)). c_Name c = ''csi-driver''"
  shows
   "(\<forall>err. cloudConfigLister configName = Inl err \<and> IsNotFound err \<longrightarrow>
        withCustomAWSCABundle isHypershift cloudConfigLister d = (d, None)) \<and>
    (\<forall>cm. cloudConfigLister configName = Inr cm \<and> Data cm caBundleKey = None \<longrightarrow>
        withCustomAWSCABundle isHypershift cloudConfigLister d = (d, None)) \<and>
    (\<forall>cm pem. cloudConfigLister configName = Inr cm \<and> Data cm caBundleKey = Some pem \<longrightarrow>
       (\<exists>pre c post. Containers (Spec d) = pre @ c # post \<and>
          (\<forall>x\<in>set pre. c_Name x \<noteq> ''csi-driver'') \<and> c_Name c = ''csi-driver'' \<and>
          withCustomAWSCABundle isHypershift cloudConfigLister d =
            (d\<lparr>Spec := (Spec d)
                 \<lparr>Volumes := Volumes (Spec d) @
                    [\<lparr>v_Name = ''ca-bundle'',
                      v_VolumeSource = \<lparr>vs_Secret = None, vs_ConfigMap = Some configName,
                                        vs_EmptyDir = None, vs_Other = None\<rparr>\<rparr>],
                  Containers := pre @
                    c\<lparr>c_Env := c_Env c @
                         [\<lparr>ev_Name = ''AWS_CA_BUNDLE'', ev_Value = ''/etc/ca/ca-bundle.pem''\<rparr>],
                      c_VolumeMounts := c_VolumeMounts c @
                         [\<lparr>vm_Name = ''ca-bundle'', vm_MountPath = ''/etc/ca'',
                           vm_ReadOnly = True\<rparr>]\<rparr> # post\<rparr>\<rparr>,
             None))) \<and>
    ''/etc/ca/ca-bundle.pem'' = ''/etc/ca'' @ ''/'' @ caBundleKey"
proof (intro conjI allI impI)
  fix err assume "cloudConfigLister configName = Inl err \<and> IsNotFound err"
  then show "withCustomAWSCABundle isHypershift cloudConfigLister d = (d, None)"
    unfolding configName_def
    by (intro withCustomAWSCABundle_unused customAWSCABundle_absent [of _ _ err]) simp_all
next
  fix cm assume "cloudConfigLister configName = Inr cm \<and> Data cm caBundleKey = None"
  then show "withCustomAWSCABundle isHypershift cloudConfigLister d = (d, None)"
    unfolding configName_def
    by (intro withCustomAWSCABundle_unused customAWSCABundle_no_key [of _ _ cm]) simp_all
next
  fix cm pem
  assume a: "cloudConfigLister configName = Inr cm \<and> Data cm caBundleKey = Some pem"
  then have k: "customAWSCABundle isHypershift cloudConfigLister = (configName, None)"
    unfolding configName_def by (intro customAWSCABundle_key [of _ _ cm pem]) simp_all
  have ne: "configName \<noteq> ''''" by (simp add: configName_def cloudConfigName_def)
  from drv have "mutateFirst ''csi-driver'' addCABundle (Containers (Spec d)) \<noteq> None"
    by (simp add: mutateFirst_None_iff)
  then obtain cs where cs: "mutateFirst ''csi-driver'' addCABundle (Containers (Spec d)) = Some cs"
    by blast
  from mutateFirst_Some_decomp [OF cs] obtain pre c post where
    dec: "Containers (Spec d) = pre @ c # post" "\<forall>x\<in>set pre. c_Name x \<noteq> ''csi-driver''"
      "c_Name c = ''csi-driver''" "cs = pre @ addCABundle c # post"
    by blast
  have "withCustomAWSCABundle isHypershift cloudConfigLister d =
            (d\<lparr>Spec := (Spec d)
                 \<lparr>Volumes := Volumes (Spec d) @
                    [\<lparr>v_Name = ''ca-bundle'',
                      v_VolumeSource = \<lparr>vs_Secret = None, vs_ConfigMap = Some configName,
                                        vs_EmptyDir = None, vs_Other = None\<rparr>\<rparr>],
                  Containers := pre @
                    c\<lparr>c_Env := c_Env c @
                         [\<lparr>ev_Name = ''AWS_CA_BUNDLE'', ev_Value = ''/etc/ca/ca-bundle.pem''\<rparr>],
                      c_VolumeMounts := c_VolumeMounts c @
                         [\<lparr>vm_Name = ''ca-bundle'', vm_MountPath = ''/etc/ca'',
                           vm_ReadOnly = True\<rparr>]\<rparr> # post\<rparr>\<rparr>,
             None)"
    unfolding withCustomAWSCABundle_used [OF k ne] cs dec(4)
    by (simp add: caBundleVolume_def addCABundle_def)
  with dec(1-3)
  show "\<exists>pre c post. Containers (Spec d) = pre @ c # post \<and>
          (\<forall>x\<in>set pre. c_Name x \<noteq> ''csi-driver'') \<and> c_Name c = ''csi-driver'' \<and>
          withCustomAWSCABundle isHypershift cloudConfigLister d =
            (d\<lparr>Spec := (Spec d)
                 \<lparr>Volumes := Volumes (Spec d) @
                    [\<lparr>v_Name = ''ca-bundle'',
                      v_VolumeSource = \<lparr>vs_Secret = None, vs_ConfigMap = Some configName,
                                        vs_EmptyDir = None, vs_Other = None\<rparr>\<rparr>],
                  Containers := pre @
                    c\<lparr>c_Env := c_Env c @
                         [\<lparr>ev_Name = ''AWS_CA_BUNDLE'', ev_Value = ''/etc/ca/ca-bundle.pem''\<rparr>],
                      c_VolumeMounts := c_VolumeMounts c @
                         [\<lparr>vm_Name = ''ca-bundle'', vm_MountPath = ''/etc/ca'',
                           vm_ReadOnly = True\<rparr>]\<rparr> # post\<rparr>\<rparr>,
             None)"
    by blast
next
  show "''/etc/ca/ca-bundle.pem'' = ''/etc/ca'' @ ''/'' @ caBundleKey"
    by (simp add: caBundleKey_def)
qed

theorem ca_bundle_hook_cases_witness:
  "map c_Name (Containers (Spec exampleDeployment)) =
     [''csi-driver'', ''driver-kube-rbac-proxy'', ''csi-provisioner''] \<and>
   cloudConfigAbsent cloudConfigName = Inl StatusNotFound \<and>
   withCustomAWSCABundle False cloudConfigAbsent exampleDeployment = (exampleDeployment, None) \<and>
   cloudConfigWithoutKey cloudConfigName = Inr \<lparr>Data = [''cloud.conf'' \<mapsto> ''[Global]'']\<rparr> \<and>
   withCustomAWSCABundle False cloudConfigWithoutKey exampleDeployment = (exampleDeployment, None) \<and>
   cloudConfigWithBundle cloudConfigName = Inr \<lparr>Data = [caBundleKey \<mapsto> ''PEM'']\<rparr> \<and>
   snd (withCustomAWSCABundle False cloudConfigWithBundle exampleDeployment) = None \<and>
   map v_Name (Volumes (Spec (fst (withCustomAWSCABundle False cloudConfigWithBundle exampleDeployment)))) =
     [''bound-sa-token'', ''metrics-serving-cert'', ''socket-dir'', ''metrics-serving-cert'', ''ca-bundle''] \<and>
   map c_Env (Containers (Spec (fst (withCustomAWSCABundle False cloudConfigWithBundle exampleDeployment)))) =
     [[\<lparr>ev_Name = ''AWS_CA_BUNDLE'', ev_Value = ''/etc/ca/ca-bundle.pem''\<rparr>], [], []] \<and>
   map c_VolumeMounts (Containers (Spec (fst (withCustomAWSCABundle False cloudConfigWithBundle exampleDeployment)))) =
     [[\<lparr>vm_Name = ''ca-bundle'', vm_MountPath = ''/etc/ca'', vm_ReadOnly = True\<rparr>], [], []]"
proof -
  have names: "map c_Name (Containers (Spec exampleDeployment)) =
     [''csi-driver'', ''driver-kube-rbac-proxy'', ''csi-provisioner'']"
    by (simp add: example_defs)
  have drv: "\<exists>c\<in>set (Containers (Spec exampleDeployment)). c_Name c = ''csi-driver''"
    by (simp add: example_defs)
  have "\<forall>err. cloudConfigAbsent (if False then ''user-ca-bundle'' else cloudConfigName) = Inl err \<and>
          IsNotFound err \<longrightarrow>
        withCustomAWSCABundle False cloudConfigAbsent exampleDeployment = (exampleDeployment, None)"
    using ca_bundle_hook_cases [where d = exampleDeployment and isHypershift = False
      and cloudConfigLister = cloudConfigAbsent, OF drv]
    by (rule conjunct1)
  then have absent:
    "withCustomAWSCABundle False cloudConfigAbsent exampleDeployment = (exampleDeployment, None)"
    by (simp add: cloudConfigAbsent_def)
  have "\<forall>cm. cloudConfigWithoutKey (if False then ''user-ca-bundle'' else cloudConfigName) = Inr cm \<and>
          Data cm caBundleKey = None \<longrightarrow>
        withCustomAWSCABundle False cloudConfigWithoutKey exampleDeployment = (exampleDeployment, None)"
    using ca_bundle_hook_cases [where d = exampleDeployment and isHypershift = False
      and cloudConfigLister = cloudConfigWithoutKey, OF drv]
    by (rule conjunct1 [OF conjunct2])
  then have no_key:
    "withCustomAWSCABundle False cloudConfigWithoutKey exampleDeployment = (exampleDeployment, None)"
    by (simp add: cloudConfigWithoutKey_def caBundleKey_def)
  have used: "snd (withCustomAWSCABundle False cloudConfigWithBundle exampleDeployment) = None \<and>
   map v_Name (Volumes (Spec (fst (withCustomAWSCABundle False cloudConfigWithBundle exampleDeployment)))) =
     [''bound-sa-token'', ''metrics-serving-cert'', ''socket-dir'', ''metrics-serving-cert'', ''ca-bundle''] \<and>
   map c_Env (Containers (Spec (fst (withCustomAWSCABundle False cloudConfigWithBundle exampleDeployment)))) =
     [[\<lparr>ev_Name = ''AWS_CA_BUNDLE'', ev_Value = ''/etc/ca/ca-bundle.pem''\<rparr>], [], []] \<and>
   map c_VolumeMounts (Containers (Spec (fst (withCustomAWSCABundle False cloudConfigWithBundle exampleDeployment)))) =
     [[\<lparr>vm_Name = ''ca-bundle'', vm_MountPath = ''/etc/ca'', vm_ReadOnly = True\<rparr>], [], []]"
    by (simp add: example_defs lister_defs ca_defs)
  have listers: "cloudConfigAbsent cloudConfigName = Inl StatusNotFound"
    "cloudConfigWithoutKey cloudConfigName = Inr \<lparr>Data = [''cloud.conf'' \<mapsto> ''[Global]'']\<rparr>"
    "cloudConfigWithBundle cloudConfigName = Inr \<lparr>Data = [caBundleKey \<mapsto> ''PEM'']\<rparr>"
    by (simp_all add: cloudConfigAbsent_def cloudConfigWithoutKey_def cloudConfigWithBundle_def)
  from names listers absent no_key used show ?thesis by (intro conjI) simp_all
qed

text \<open>
  Claim C10. When \<open>customAWSCABundle\<close> returns a non-empty config map name and no
  container of the deployment is named \<^verbatim>\<open>csi-driver\<close>, the hook returns the
  missing-container error, and the deployment it leaves behind is the input with the
  \<^verbatim>\<open>ca-bundle\<close> volume already appended: it is not the input deployment.
\<close>

theorem ca_bundle_missing_container_mutates:
  assumes cfg: "customAWSCABundle isHypershift cloudConfigLister = (configName, None)"
    and ne: "configName \<noteq> ''''"
    and none: "\<forall>c\<in>set (Containers (Spec d)). c_Name c \<noteq> ''csi-driver''"
  shows "withCustomAWSCABundle isHypershift cloudConfigLister d =
      (d\<lparr>Spec := (Spec d)\<lparr>Volumes := Volumes (Spec d) @
          [\<lparr>v_Name = ''ca-bundle'',
            v_VolumeSource = \<lparr>vs_Secret = None, vs_ConfigMap = Some configName,
                              vs_EmptyDir = None, vs_Other = None\<rparr>\<rparr>]\<rparr>\<rparr>,
       Some (Errorf ''could not use custom CA bundle because the csi-driver container is missing from the deployment'')) \<and>
    fst (withCustomAWSCABundle isHypershift cloudConfigLister d) \<noteq> d"
proof -
  from none have m: "mutateFirst ''csi-driver'' addCABundle (Containers (Spec d)) = None"
    by (simp add: mutateFirst_None_iff)
  have r: "withCustomAWSCABundle isHypershift cloudConfigLister d =
      (d\<lparr>Spec := (Spec d)\<lparr>Volumes := Volumes (Spec d) @
          [\<lparr>v_Name = ''ca-bundle'',
            v_VolumeSource = \<lparr>vs_Secret = None, vs_ConfigMap = Some configName,
                              vs_EmptyDir = None, vs_Other = None\<rparr>\<rparr>]\<rparr>\<rparr>,
       Some (Errorf ''could not use custom CA bundle because the csi-driver container is missing from the deployment''))"
    unfolding withCustomAWSCABundle_used [OF cfg ne] m by (simp add: caBundleVolume_def)
  have "length (Volumes (Spec (fst (withCustomAWSCABundle isHypershift cloudConfigLister d)))) =
      Suc (length (Volumes (Spec d)))"
    unfolding r by simp
  then have "fst (withCustomAWSCABundle isHypershift cloudConfigLister d) \<noteq> d" by auto
  with r show ?thesis by blast
qed

theorem ca_bundle_missing_container_mutates_witness:
  "customAWSCABundle False cloudConfigWithBundle = (''kube-cloud-config'', None) \<and>
   map c_Name (Containers (Spec sidecarOnlyDeployment)) = [''csi-provisioner''] \<and>
   map v_Name (Volumes (Spec sidecarOnlyDeployment)) = [''socket-dir''] \<and>
   snd (withCustomAWSCABundle False cloudConfigWithBundle sidecarOnlyDeployment) =
     Some (Errorf ''could not use custom CA bundle because the csi-driver container is missing from the deployment'') \<and>
   map v_Name (Volumes (Spec (fst (withCustomAWSCABundle False cloudConfigWithBundle sidecarOnlyDeployment)))) =
     [''socket-dir'', ''ca-bundle'']"
  using ca_bundle_missing_container_mutates [where d = sidecarOnlyDeployment and isHypershift = False
      and cloudConfigLister = cloudConfigWithBundle and configName = "''kube-cloud-config''"]
  by (simp add: example_defs lister_defs ca_defs)

subsection \<open>The hooks that read the infrastructure object\<close>

lemma withAWSRegion_set:
  assumes "infraLister infrastructureName = Inr infra"
    and "PlatformStatus infra = Some (Some aws)" and "Region aws \<noteq> ''''"
  shows "withAWSRegion infraLister d =
     (d\<lparr>Spec := (Spec d)\<lparr>Containers :=
          map (\<lambda>c. if c_Name c \<noteq> ''csi-driver'' then c
                   else c\<lparr>c_Env := c_Env c @ [\<lparr>ev_Name = ''AWS_REGION'', ev_Value = Region aws\<rparr>]\<rparr>)
            (Containers (Spec d))\<rparr>\<rparr>, None)"
  using assms by (simp add: withAWSRegion_def Let_def mutateEach_def setContainers_def)

lemma withCustomTags_set:
  assumes "infraLister infrastructureName = Inr infra"
    and "PlatformStatus infra = Some (Some aws)" and "ResourceTags aws \<noteq> []"
  shows "withCustomTags infraLister d =
     (d\<lparr>Spec := (Spec d)\<lparr>Containers :=
          map (\<lambda>c. if c_Name c \<noteq> ''csi-driver'' then c
                   else c\<lparr>c_Args := c_Args c @ [tagsArgumentOf (ResourceTags aws)]\<rparr>)
            (Containers (Spec d))\<rparr>\<rparr>, None)"
  using assms by (simp add: withCustomTags_def Let_def mutateEach_def setContainers_def)

text \<open>
  Claim C3 as stated fails. It says that after \<open>withAWSRegion\<close> and \<open>withCustomTags\<close>
  the args of the \<^verbatim>\<open>csi-driver\<close> container contain exactly one argument of the form
  \<^verbatim>\<open>--extra-tags=k1=v1,k2=v2\<close>, for every deployment with such a container. The hook
  appends without looking at the args that are there: on a deployment whose
  \<^verbatim>\<open>csi-driver\<close> container already carries that argument, the result carries it
  twice.
\<close>

theorem extra_tags_single_argument_counterexample:
  "exampleInfraLister infrastructureName =
     Inr \<lparr>PlatformStatus = Some (Some \<lparr>Region = ''us-east-1'', ServiceEndpoints = [],
        ResourceTags = [\<lparr>rt_Key = ''env'', rt_Value = ''prod''\<rparr>,
                        \<lparr>rt_Key = ''team'', rt_Value = ''storage''\<rparr>]\<rparr>)\<rparr> \<and>
   map c_Name (Containers (Spec taggedDeployment)) = [''csi-driver''] \<and>
   snd (withAWSRegion exampleInfraLister taggedDeployment) = None \<and>
   snd (withCustomTags exampleInfraLister (fst (withAWSRegion exampleInfraLister taggedDeployment))) = None \<and>
   map c_Args (Containers (Spec (fst (withCustomTags exampleInfraLister
       (fst (withAWSRegion exampleInfraLister taggedDeployment)))))) =
     [[''--extra-tags=env=prod,team=storage'', ''--extra-tags=env=prod,team=storage'']] \<and>
   count_list (c_Args (hd (Containers (Spec (fst (withCustomTags exampleInfraLister
       (fst (withAWSRegion exampleInfraLister taggedDeployment))))))))
     ''--extra-tags=env=prod,team=storage'' = 2"
  by (simp add: example_defs lister_defs infra_defs)

text \<open>
  Claim C3, amended. Let the deployment have a container named \<^verbatim>\<open>csi-driver\<close> and
  the cached infrastructure object an AWS platform status with region
  \<^verbatim>\<open>us-east-1\<close> and the two resource tags \<open>(k1, v1)\<close> and \<open>(k2, v2)\<close>. Then
  \<open>withAWSRegion\<close> followed by \<open>withCustomTags\<close> return no error, the containers keep
  their positions, and every container named \<^verbatim>\<open>csi-driver\<close> has
  \<^verbatim>\<open>AWS_REGION=us-east-1\<close> in its env and has as args its base args followed by
  the one argument \<^verbatim>\<open>--extra-tags=k1=v1,k2=v2\<close>, the pairs joined by commas in the
  order of the tag list. The hooks thus add exactly one such argument: the args
  contain one more of it than the base args did, hence exactly one where the base
  args had none.
\<close>

theorem region_and_tags_appended:
  assumes inf: "infraLister infrastructureName = Inr infra"
    and aws: "PlatformStatus infra = Some (Some aws)"
    and reg: "Region aws = ''us-east-1''"
    and tags: "ResourceTags aws = [\<lparr>rt_Key = k1, rt_Value = v1\<rparr>, \<lparr>rt_Key = k2, rt_Value = v2\<rparr>]"
    and drv: "\<exists>c\<in>set (Containers (Spec d)). c_Name c = ''csi-driver''"
    and r1: "withAWSRegion infraLister d = (dRegion, eRegion)"
    and r2: "withCustomTags infraLister dRegion = (dTags, eTags)"
  shows "eRegion = None \<and> eTags = None \<and>
    length (Containers (Spec dTags)) = length (Containers (Spec d)) \<and>
    (\<exists>c\<in>set (Containers (Spec dTags)). c_Name c = ''csi-driver'') \<and>
    (\<forall>i<length (Containers (Spec d)). c_Name (Containers (Spec d) ! i) = ''csi-driver'' \<longrightarrow>
       c_Name (Containers (Spec dTags) ! i) = ''csi-driver'' \<and>
       \<lparr>ev_Name = ''AWS_REGION'', ev_Value = ''us-east-1''\<rparr> \<in> set (c_Env (Containers (Spec dTags) ! i)) \<and>
       c_Args (Containers (Spec dTags) ! i) =
         c_Args (Containers (Spec d) ! i) @ [''--extra-tags='' @ k1 @ ''='' @ v1 @ '','' @ k2 @ ''='' @ v2] \<and>
       count_list (c_Args (Containers (Spec dTags) ! i))
           (''--extra-tags='' @ k1 @ ''='' @ v1 @ '','' @ k2 @ ''='' @ v2) =
         count_list (c_Args (Containers (Spec d) ! i))
           (''--extra-tags='' @ k1 @ ''='' @ v1 @ '','' @ k2 @ ''='' @ v2) + 1)"
proof -
  let ?arg = "''--extra-tags='' @ k1 @ ''='' @ v1 @ '','' @ k2 @ ''='' @ v2"
  let ?f = "\<lambda>c. if c_Name c \<noteq> ''csi-driver'' then c
       else c\<lparr>c_Env := c_Env c @ [\<lparr>ev_Name = ''AWS_REGION'', ev_Value = ''us-east-1''\<rparr>]\<rparr>"
  let ?g = "\<lambda>c. if c_Name c \<noteq> ''csi-driver'' then c else c\<lparr>c_Args := c_Args c @ [?arg]\<rparr>"
  have rne: "Region aws \<noteq> ''''" using reg by simp
  have tne: "ResourceTags aws \<noteq> []" using tags by simp
  have ta: "tagsArgumentOf (ResourceTags aws) = ?arg"
    unfolding tags by (rule tagsArgumentOf_two)
  from r1 have eR: "eRegion = None"
    and dR: "dRegion = d\<lparr>Spec := (Spec d)\<lparr>Containers := map ?f (Containers (Spec d))\<rparr>\<rparr>"
    unfolding withAWSRegion_set [where infraLister = infraLister, OF inf aws rne] reg by simp_all
  from r2 have eT: "eTags = None"
    and dT: "dTags = dRegion\<lparr>Spec := (Spec dRegion)\<lparr>Containers := map ?g (Containers (Spec dRegion))\<rparr>\<rparr>"
    unfolding withCustomTags_set [where infraLister = infraLister, OF inf aws tne] ta by simp_all
  have cs: "Containers (Spec dTags) = map ?g (map ?f (Containers (Spec d)))"
    unfolding dT dR by simp
  have len: "length (Containers (Spec dTags)) = length (Containers (Spec d))"
    unfolding cs by simp
  have at: "Containers (Spec dTags) ! i = ?g (?f (Containers (Spec d) ! i))"
    if "i < length (Containers (Spec d))" for i
    unfolding cs using that by simp
  have each: "c_Name (Containers (Spec dTags) ! i) = ''csi-driver'' \<and>
       \<lparr>ev_Name = ''AWS_REGION'', ev_Value = ''us-east-1''\<rparr> \<in> set (c_Env (Containers (Spec dTags) ! i)) \<and>
       c_Args (Containers (Spec dTags) ! i) = c_Args (Containers (Spec d) ! i) @ [?arg] \<and>
       count_list (c_Args (Containers (Spec dTags) ! i)) ?arg =
         count_list (c_Args (Containers (Spec d) ! i)) ?arg + 1"
    if i: "i < length (Containers (Spec d))" and n: "c_Name (Containers (Spec d) ! i) = ''csi-driver''" for i
    unfolding at [OF i] using n by simp
  have ex: "\<exists>c\<in>set (Containers (Spec dTags)). c_Name c = ''csi-driver''"
  proof -
    from drv obtain i where i: "i < length (Containers (Spec d))"
      and n: "c_Name (Containers (Spec d) ! i) = ''csi-driver''"
      by (auto simp: in_set_conv_nth)
    from each [OF i n] have "c_Name (Containers (Spec dTags) ! i) = ''csi-driver''" by blast
    moreover have "Containers (Spec dTags) ! i \<in> set (Containers (Spec dTags))"
      using i len by simp
    ultimately show ?thesis by blast
  qed
  from eR eT len ex each show ?thesis by blast
qed

theorem region_and_tags_appended_witness:
  "exampleInfraLister infrastructureName = Inr \<lparr>PlatformStatus = Some (Some exampleAWS)\<rparr> \<and>
   Region exampleAWS = ''us-east-1'' \<and>
   ResourceTags exampleAWS =
     [\<lparr>rt_Key = ''env'', rt_Value = ''prod''\<rparr>, \<lparr>rt_Key = ''team'', rt_Value = ''storage''\<rparr>] \<and>
   map c_Name (Containers (Spec exampleDeployment)) =
     [''csi-driver'', ''driver-kube-rbac-proxy'', ''csi-provisioner''] \<and>
   snd (withAWSRegion exampleInfraLister exampleDeployment) = None \<and>
   snd (withCustomTags exampleInfraLister (fst (withAWSRegion exampleInfraLister exampleDeployment))) = None \<and>
   map c_Env (Containers (Spec (fst (withCustomTags exampleInfraLister
       (fst (withAWSRegion exampleInfraLister exampleDeployment)))))) =
     [[\<lparr>ev_Name = ''AWS_REGION'', ev_Value = ''us-east-1''\<rparr>], [], []] \<and>
   map c_Args (Containers (Spec (fst (withCustomTags exampleInfraLister
       (fst (withAWSRegion exampleInfraLister exampleDeployment)))))) =
     [[''--v=2'', ''--extra-tags=env=prod,team=storage''], [''--v=2''], [''--v=2'']]"
proof -
  have inf: "exampleInfraLister infrastructureName = Inr \<lparr>PlatformStatus = Some (Some exampleAWS)\<rparr>"
    by (simp add: exampleInfraLister_def)
  have aws: "PlatformStatus \<lparr>PlatformStatus = Some (Some exampleAWS)\<rparr> = Some (Some exampleAWS)"
    by simp
  have reg: "Region exampleAWS = ''us-east-1''"
    by (simp add: exampleAWS_def)
  have tags: "ResourceTags exampleAWS =
     [\<lparr>rt_Key = ''env'', rt_Value = ''prod''\<rparr>, \<lparr>rt_Key = ''team'', rt_Value = ''storage''\<rparr>]"
    by (simp add: exampleAWS_def)
  have names: "map c_Name (Containers (Spec exampleDeployment)) =
     [''csi-driver'', ''driver-kube-rbac-proxy'', ''csi-provisioner'']"
    by (simp add: example_defs)
  have drv: "\<exists>c\<in>set (Containers (Spec exampleDeployment)). c_Name c = ''csi-driver''"
    by (simp add: example_defs)
  have r1: "withAWSRegion exampleInfraLister exampleDeployment =
      (fst (withAWSRegion exampleInfraLister exampleDeployment),
       snd (withAWSRegion exampleInfraLister exampleDeployment))"
    by simp
  have r2: "withCustomTags exampleInfraLister (fst (withAWSRegion exampleInfraLister exampleDeployment)) =
      (fst (withCustomTags exampleInfraLister (fst (withAWSRegion exampleInfraLister exampleDeployment))),
       snd (withCustomTags exampleInfraLister (fst (withAWSRegion exampleInfraLister exampleDeployment))))"
    by simp
  note t = region_and_tags_appended [where infraLister = exampleInfraLister, OF inf aws reg tags drv r1 r2]
  from t have errs: "snd (withAWSRegion exampleInfraLister exampleDeployment) = None"
    "snd (withCustomTags exampleInfraLister (fst (withAWSRegion exampleInfraLister exampleDeployment))) = None"
    by blast+
  have vals: "map c_Env (Containers (Spec (fst (withCustomTags exampleInfraLister
       (fst (withAWSRegion exampleInfraLister exampleDeployment)))))) =
     [[\<lparr>ev_Name = ''AWS_REGION'', ev_Value = ''us-east-1''\<rparr>], [], []] \<and>
   map c_Args (Containers (Spec (fst (withCustomTags exampleInfraLister
       (fst (withAWSRegion exampleInfraLister exampleDeployment)))))) =
     [[''--v=2'', ''--extra-tags=env=prod,team=storage''], [''--v=2''], [''--v=2'']]"
    by (simp add: example_defs lister_defs infra_defs)
  from inf reg tags names errs vals show ?thesis by (intro conjI) simp_all
qed

lemma infra_hooks_never_fail_on_found:
  assumes "infraLister infrastructureName = Inr infra"
  shows "snd (withAWSRegion infraLister d) = None"
    and "snd (withCustomTags infraLister d) = None"
    and "snd (withCustomEndPoint infraLister d) = None"
  using assms
  by (simp_all add: withAWSRegion_def withCustomTags_def withCustomEndPoint_def Let_def
      split: option.split)

text \<open>
  Claim C4. A hook whose optional data is absent returns no error and leaves the
  deployment as it was. With an infrastructure object that has no platform status, or
  a platform status without its AWS part, this holds of \<open>withAWSRegion\<close>,
  \<open>withCustomTags\<close> and \<open>withCustomEndPoint\<close>; with an AWS platform status it holds of
  \<open>withAWSRegion\<close> when the region is empty, of \<open>withCustomTags\<close> when the tag list is
  empty, and of \<open>withCustomEndPoint\<close> when no service endpoint is named \<^verbatim>\<open>ec2\<close>.
  It holds of \<open>withCustomAWSCABundle\<close> when the lister answers not-found for the
  cloud-config map. Whatever the infrastructure object holds, none of the three hooks
  that read it returns an error once the lookup has found it.
\<close>

theorem absent_data_hooks_no_op:
  "(infraLister infrastructureName = Inr infra \<and>
      (PlatformStatus infra = None \<or> PlatformStatus infra = Some None) \<longrightarrow>
        withAWSRegion infraLister d = (d, None) \<and> withCustomTags infraLister d = (d, None) \<and>
        withCustomEndPoint infraLister d = (d, None)) \<and>
   (infraLister infrastructureName = Inr infra \<and> PlatformStatus infra = Some (Some aws) \<and>
      Region aws = '''' \<longrightarrow> withAWSRegion infraLister d = (d, None)) \<and>
   (infraLister infrastructureName = Inr infra \<and> PlatformStatus infra = Some (Some aws) \<and>
      ResourceTags aws = [] \<longrightarrow> withCustomTags infraLister d = (d, None)) \<and>
   (infraLister infrastructureName = Inr infra \<and> PlatformStatus infra = Some (Some aws) \<and>
      (\<forall>e\<in>set (ServiceEndpoints aws). se_Name e \<noteq> ''ec2'') \<longrightarrow>
        withCustomEndPoint infraLister d = (d, None)) \<and>
   (cloudConfigLister (if isHypershift then ''user-ca-bundle'' else cloudConfigName) = Inl err \<and>
      IsNotFound err \<longrightarrow> withCustomAWSCABundle isHypershift cloudConfigLister d = (d, None)) \<and>
   (infraLister infrastructureName = Inr infra \<longrightarrow>
      snd (withAWSRegion infraLister d) = None \<and> snd (withCustomTags infraLister d) = None \<and>
      snd (withCustomEndPoint infraLister d) = None)"
proof (intro conjI impI)
  assume "infraLister infrastructureName = Inr infra \<and>
      (PlatformStatus infra = None \<or> PlatformStatus infra = Some None)"
  then show "withAWSRegion infraLister d = (d, None)"
    and "withCustomTags infraLister d = (d, None)"
    and "withCustomEndPoint infraLister d = (d, None)"
    by (auto simp: withAWSRegion_def withCustomTags_def withCustomEndPoint_def)
next
  assume "infraLister infrastructureName = Inr infra \<and> PlatformStatus infra = Some (Some aws) \<and>
      Region aws = ''''"
  then show "withAWSRegion infraLister d = (d, None)"
    by (simp add: withAWSRegion_def)
next
  assume "infraLister infrastructureName = Inr infra \<and> PlatformStatus infra = Some (Some aws) \<and>
      ResourceTags aws = []"
  then show "withCustomTags infraLister d = (d, None)"
    by (simp add: withCustomTags_def)
next
  assume "infraLister infrastructureName = Inr infra \<and> PlatformStatus infra = Some (Some aws) \<and>
      (\<forall>e\<in>set (ServiceEndpoints aws). se_Name e \<noteq> ''ec2'')"
  then show "withCustomEndPoint infraLister d = (d, None)"
    by (simp add: withCustomEndPoint_def ec2EndPointOf_none)
next
  assume "cloudConfigLister (if isHypershift then ''user-ca-bundle'' else cloudConfigName) = Inl err \<and>
      IsNotFound err"
  then show "withCustomAWSCABundle isHypershift cloudConfigLister d = (d, None)"
    by (intro withCustomAWSCABundle_unused customAWSCABundle_absent [of _ _ err]) simp_all
next
  assume "infraLister infrastructureName = Inr infra"
  then show "snd (withAWSRegion infraLister d) = None"
    and "snd (withCustomTags infraLister d) = None"
    and "snd (withCustomEndPoint infraLister d) = None"
    by (rule infra_hooks_never_fail_on_found)+
qed

theorem absent_data_hooks_no_op_witness:
  "otherPlatformInfraLister infrastructureName = Inr \<lparr>PlatformStatus = Some None\<rparr> \<and>
   withAWSRegion otherPlatformInfraLister exampleDeployment = (exampleDeployment, None) \<and>
   withCustomTags otherPlatformInfraLister exampleDeployment = (exampleDeployment, None) \<and>
   withCustomEndPoint otherPlatformInfraLister exampleDeployment = (exampleDeployment, None) \<and>
   bareInfraLister infrastructureName = Inr \<lparr>PlatformStatus = Some (Some bareAWS)\<rparr> \<and>
   Region bareAWS = '''' \<and> ResourceTags bareAWS = [] \<and> ServiceEndpoints bareAWS = [] \<and>
   withAWSRegion bareInfraLister exampleDeployment = (exampleDeployment, None) \<and>
   withCustomTags bareInfraLister exampleDeployment = (exampleDeployment, None) \<and>
   withCustomEndPoint bareInfraLister exampleDeployment = (exampleDeployment, None) \<and>
   cloudConfigAbsent cloudConfigName = Inl StatusNotFound \<and>
   withCustomAWSCABundle False cloudConfigAbsent exampleDeployment = (exampleDeployment, None)"
  using absent_data_hooks_no_op [where infraLister = otherPlatformInfraLister
      and infra = "\<lparr>PlatformStatus = Some None\<rparr>" and d = exampleDeployment
      and cloudConfigLister = cloudConfigAbsent and isHypershift = False and err = StatusNotFound]
    absent_data_hooks_no_op [where infraLister = bareInfraLister
      and infra = "\<lparr>PlatformStatus = Some (Some bareAWS)\<rparr>" and aws = bareAWS
      and d = exampleDeployment]
  by (simp add: otherPlatformInfraLister_def bareInfraLister_def bareAWS_def cloudConfigAbsent_def)

subsection \<open>The config mirror\<close>

lemma syncPass_source_absent:
  "st (source rule) = None \<Longrightarrow> syncPass rule st = st(destination rule := None)"
  by (simp add: syncPass_def)

lemma syncPass_idle:
  assumes "st (source rule) = None" and "st (destination rule) = None"
  shows "syncPass rule st = st"
proof -
  have "st(destination rule := None) = st" using assms(2) by (metis fun_upd_triv)
  with assms(1) show ?thesis by (simp add: syncPass_source_absent)
qed

lemma syncPass_idle_funpow:
  assumes "st (source rule) = None" and "st (destination rule) = None"
  shows "(syncPass rule ^^ n) st = st"
  by (induction n) (simp_all add: syncPass_idle [OF assms])

text \<open>
  Claim C9. The rule registered by \<open>newCustomAWSBundleSyncer\<close> has the config map
  \<^verbatim>\<open>kube-cloud-config\<close> of namespace \<^verbatim>\<open>openshift-config-managed\<close> as its source and
  the config map of the same name in the operator's namespace as its destination. A
  sync pass that finds the source makes the destination equal to it; a sync pass after
  the source is deleted leaves no destination; when neither source nor destination
  exists, no number of sync passes creates the destination; and a sync pass writes no
  location but the destination.
\<close>

theorem config_mirror_one_directional:
  fixes destinationNamespace :: string and st :: store
  defines "rule \<equiv> newCustomAWSBundleSyncer destinationNamespace"
  shows "source rule = \<lparr>rl_Namespace = ''openshift-config-managed'', rl_Name = ''kube-cloud-config''\<rparr> \<and>
    destination rule = \<lparr>rl_Namespace = destinationNamespace, rl_Name = ''kube-cloud-config''\<rparr> \<and>
    (\<forall>cm. st (source rule) = Some cm \<longrightarrow> syncPass rule st (destination rule) = Some cm) \<and>
    syncPass rule (st(source rule := None)) (destination rule) = None \<and>
    (st (source rule) = None \<and> st (destination rule) = None \<longrightarrow>
       (\<forall>n. (syncPass rule ^^ n) st (destination rule) = None)) \<and>
    (\<forall>loc. loc \<noteq> destination rule \<longrightarrow> syncPass rule st loc = st loc)"
proof (intro conjI allI impI)
  show "source rule = \<lparr>rl_Namespace = ''openshift-config-managed'', rl_Name = ''kube-cloud-config''\<rparr>"
    by (simp add: rule_def newCustomAWSBundleSyncer_def SyncConfigMap_def Let_def
        cloudConfigNamespace_def cloudConfigName_def)
  show "destination rule = \<lparr>rl_Namespace = destinationNamespace, rl_Name = ''kube-cloud-config''\<rparr>"
    by (simp add: rule_def newCustomAWSBundleSyncer_def SyncConfigMap_def Let_def
        cloudConfigName_def)
  show "syncPass rule st (destination rule) = Some cm" if "st (source rule) = Some cm" for cm
    using that by (simp add: syncPass_def)
  show "syncPass rule (st(source rule := None)) (destination rule) = None"
    by (simp add: syncPass_def)
  show "(syncPass rule ^^ n) st (destination rule) = None"
    if "st (source rule) = None \<and> st (destination rule) = None" for n
    using that by (simp add: syncPass_idle_funpow)
  show "syncPass rule st loc = st loc" if "loc \<noteq> destination rule" for loc
    using that by (simp add: syncPass_def split: option.split)
qed

theorem config_mirror_one_directional_witness:
  "sourceOnlyStore \<lparr>rl_Namespace = ''openshift-config-managed'', rl_Name = ''kube-cloud-config''\<rparr> =
     Some \<lparr>Data = [caBundleKey \<mapsto> ''PEM'']\<rparr> \<and>
   syncPass (newCustomAWSBundleSyncer ''openshift-cluster-csi-drivers'') sourceOnlyStore
       \<lparr>rl_Namespace = ''openshift-cluster-csi-drivers'', rl_Name = ''kube-cloud-config''\<rparr> =
     Some \<lparr>Data = [caBundleKey \<mapsto> ''PEM'']\<rparr> \<and>
   syncPass (newCustomAWSBundleSyncer ''openshift-cluster-csi-drivers'')
       ((syncPass (newCustomAWSBundleSyncer ''openshift-cluster-csi-drivers'') sourceOnlyStore)
          (\<lparr>rl_Namespace = ''openshift-config-managed'', rl_Name = ''kube-cloud-config''\<rparr> := None))
       \<lparr>rl_Namespace = ''openshift-cluster-csi-drivers'', rl_Name = ''kube-cloud-config''\<rparr> = None \<and>
   emptyStore \<lparr>rl_Namespace = ''openshift-config-managed'', rl_Name = ''kube-cloud-config''\<rparr> = None \<and>
   emptyStore \<lparr>rl_Namespace = ''openshift-cluster-csi-drivers'', rl_Name = ''kube-cloud-config''\<rparr> = None \<and>
   (syncPass (newCustomAWSBundleSyncer ''openshift-cluster-csi-drivers'') ^^ 3) emptyStore
       \<lparr>rl_Namespace = ''openshift-cluster-csi-drivers'', rl_Name = ''kube-cloud-config''\<rparr> = None"
proof -
  let ?r = "newCustomAWSBundleSyncer ''openshift-cluster-csi-drivers''"
  let ?src = "\<lparr>rl_Namespace = ''openshift-config-managed'', rl_Name = ''kube-cloud-config''\<rparr>"
  let ?dst = "\<lparr>rl_Namespace = ''openshift-cluster-csi-drivers'', rl_Name = ''kube-cloud-config''\<rparr>"
  note t = config_mirror_one_directional [of "''openshift-cluster-csi-drivers''"]
  have src: "source ?r = ?src" and dst: "destination ?r = ?dst"
    using t [of emptyStore] by simp_all
  have s: "sourceOnlyStore ?src = Some \<lparr>Data = [caBundleKey \<mapsto> ''PEM'']\<rparr>"
    by (simp add: sourceOnlyStore_def cloudConfigNamespace_def cloudConfigName_def)
  have 1: "syncPass ?r sourceOnlyStore ?dst = Some \<lparr>Data = [caBundleKey \<mapsto> ''PEM'']\<rparr>"
    using t [of sourceOnlyStore] s unfolding src dst by blast
  have 2: "syncPass ?r ((syncPass ?r sourceOnlyStore)(?src := None)) ?dst = None"
    using t [of "syncPass ?r sourceOnlyStore"] unfolding src dst by blast
  have e: "emptyStore ?src = None" "emptyStore ?dst = None"
    by (simp_all add: emptyStore_def)
  have 3: "(syncPass ?r ^^ 3) emptyStore ?dst = None"
    using t [of emptyStore] e unfolding src dst by blast
  from s 1 2 e 3 show ?thesis by (intro conjI)
qed

end
